theory Spec2Isabelle
  imports Complex_Main "HOL-Library.AList" "HOL-Library.Word"
begin

section \<open>The scene session of the model viewer\<close>

text \<open>
  The viewer component keeps its session in React refs (the scene, camera and renderer,
  the loaded model group, the two material tables) and the page component keeps the
  selected part and the part colour in React state. The embedding puts both into one
  record and passes it through every operation.

  JavaScript objects have identity, and the code compares materials with \<open>!==\<close>.
  Material objects and \<open>Material[]\<close> arrays therefore live in two stores, addressed by
  their index; \<open>new\<close> and \<open>clone()\<close> append to a store, so a new object never has the
  address of an older one. Mesh objects are addressed by their \<open>uuid\<close>, which the
  rendering library makes unique per object. Numbers are idealised as reals (no
  rounding, no infinities), a \<open>THREE.Color\<close> is its 24-bit RGB value. The part colour
  that the page keeps in its state is a string, as in the code: the recolouring effect
  runs again when the string changes, also when the colour it denotes is the same.
\<close>

subsection \<open>Data model\<close>

type_synonym uuid = string
type_synonym colour = "24 word"

datatype material_class =
  MeshStandardMaterial | MeshBasicMaterial | MeshPhongMaterial
  | MeshLambertMaterial | MeshToonMaterial | OtherMaterial

record material =
  mat_class :: material_class
  mat_color :: "colour option"
  mat_disposed :: bool

text \<open>A value of type \<open>THREE.Material | THREE.Material[]\<close>: the address of a material
  or the address of an array of materials.\<close>

datatype matref = Single nat | Multi nat

record vec3 =
  vx :: real
  vy :: real
  vz :: real

record mesh =
  mesh_material :: matref
  castShadow :: bool
  receiveShadow :: bool
  geometry_disposed :: bool

text \<open>The model group: the uuids that \<open>traverse\<close> visits in order (one that is not in
  the mesh store is an object that is no mesh), its translation and scale, the bounding
  box of its content in its own coordinates (\<open>None\<close> when there is no geometry), and
  whether it is a child of the scene.\<close>

record group =
  children :: "uuid list"
  g_position :: vec3
  g_scale :: vec3
  content_box :: "(vec3 \<times> vec3) option"
  in_scene :: bool

record camera =
  aspect :: real
  cam_position :: vec3

record renderer =
  r_width :: int
  r_height :: int
  pixelRatio :: real

record mount =
  clientWidth :: int
  clientHeight :: int

record session =
  mats :: "material list"
  arrays :: "nat list list"
  meshes :: "uuid \<Rightarrow> mesh option"
  sceneRef :: bool
  cameraRef :: "camera option"
  rendererRef :: "renderer option"
  mountRef :: "mount option"
  controlsRef :: bool
  spotLightRef :: bool
  gltfLoaderRef :: bool
  modelGroupRef :: "group option"
  gltfOriginalMaterialsRef :: "(uuid \<times> matref) list"
  activeMaterialsRef :: "(uuid \<times> matref) list"
  isLoading :: bool
  selectedPart :: "uuid option"
  selectedPartColor :: string
  styleColor :: "string \<Rightarrow> colour"

text \<open>What the loader hands to its success callback: the scene group, and the mesh,
  material and array objects it has created for it. The loader's materials and arrays
  are put at the end of the stores (\<open>allocate\<close> below); \<open>gltf_meshes\<close> and \<open>gltf_arrays\<close>
  refer to materials by the addresses they have in the stores after that.\<close>

record gltf =
  gltf_scene :: group
  gltf_meshes :: "(uuid \<times> mesh) list"
  gltf_materials :: "material list"
  gltf_arrays :: "nat list list"

text \<open>What \<open>loader.parse\<close> does with a buffer: it throws (the buffer is shorter than the
  four bytes of the header, or its text is not JSON: the loader calls \<open>JSON.parse\<close>
  outside any \<open>try\<close>), it calls the error callback, or it calls the success callback
  with the decoded model.\<close>

datatype decode_outcome = Throws | Malformed | Decoded gltf

text \<open>What happens to a model file: the file reader fails, or it finishes, without a
  result (\<open>None\<close>) or with a buffer that is handed to the loader.\<close>

datatype file_outcome = ReadFailed | ReadDone "decode_outcome option"

text \<open>The toast that is shown. \<open>UncaughtError\<close> is no toast: an exception has left the
  event handler, and nothing is shown to the user.\<close>

datatype notice =
  NoNotice | ModelLoaded | DecodeError | ReadError | FileReadIssue | UncaughtError

datatype export_error = ExportError

subsection \<open>Materials: dispose, clone and colour\<close>

definition dispose :: "nat \<Rightarrow> material list \<Rightarrow> material list" where
  "dispose a ms = ms[a := (ms ! a)\<lparr>mat_disposed := True\<rparr>]"

text \<open>\<open>if (Array.isArray(m)) m.forEach(x => x.dispose()); else m.dispose()\<close>\<close>

fun disposeRef :: "matref \<Rightarrow> session \<Rightarrow> session" where
  "disposeRef (Single a) s = s\<lparr>mats := dispose a (mats s)\<rparr>"
| "disposeRef (Multi a) s = s\<lparr>mats := fold dispose (arrays s ! a) (mats s)\<rparr>"

definition cloneAndColorMaterial :: "colour \<Rightarrow> material \<Rightarrow> material" where
  "cloneAndColorMaterial colorToApply originalMat =
     (let clonedMat = originalMat\<lparr>mat_disposed := False\<rparr> in
      if mat_color clonedMat \<noteq> None then clonedMat\<lparr>mat_color := Some colorToApply\<rparr>
      else if mat_class clonedMat = MeshStandardMaterial
            \<or> mat_class clonedMat = MeshBasicMaterial
            \<or> mat_class clonedMat = MeshPhongMaterial
            \<or> mat_class clonedMat = MeshLambertMaterial
            \<or> mat_class clonedMat = MeshToonMaterial
      then clonedMat\<lparr>mat_color := Some colorToApply\<rparr>
      else clonedMat)"

text \<open>The new material (or the new array of new materials) for an original, and the
  stores after the allocation.\<close>

fun cloneRef :: "colour \<Rightarrow> matref \<Rightarrow> session \<Rightarrow> matref \<times> session" where
  "cloneRef c (Single a) s =
     (Single (length (mats s)),
      s\<lparr>mats := mats s @ [cloneAndColorMaterial c (mats s ! a)]\<rparr>)"
| "cloneRef c (Multi a) s =
     (Multi (length (arrays s)),
      s\<lparr>mats := mats s @ map (\<lambda>x. cloneAndColorMaterial c (mats s ! x)) (arrays s ! a),
        arrays := arrays s @ [[length (mats s) ..< length (mats s) + length (arrays s ! a)]]\<rparr>)"

subsection \<open>Recolouring the selected part\<close>

text \<open>The previous active value of the part is disposed when it is neither the original
  nor the new value; the code then asks once more whether it differs from the original.\<close>

definition disposePrevious :: "uuid \<Rightarrow> matref \<Rightarrow> matref \<Rightarrow> session \<Rightarrow> session" where
  "disposePrevious u trueOriginalMaterialBase newColoredMaterial s =
     (case map_of (activeMaterialsRef s) u of
        None \<Rightarrow> s
      | Some previousActiveMaterial \<Rightarrow>
          if previousActiveMaterial \<noteq> trueOriginalMaterialBase
             \<and> previousActiveMaterial \<noteq> newColoredMaterial
          then (if Some previousActiveMaterial \<noteq> map_of (gltfOriginalMaterialsRef s) u
                then disposeRef previousActiveMaterial s else s)
          else s)"

text \<open>\<open>currentPart.material = newColoredMaterial; activeMaterialsRef.current.set(uuid, ...)\<close>\<close>

definition installMaterial :: "uuid \<Rightarrow> matref \<Rightarrow> session \<Rightarrow> session" where
  "installMaterial u newColoredMaterial s =
     s\<lparr>meshes := (case meshes s u of
                     None \<Rightarrow> meshes s
                   | Some m \<Rightarrow> (meshes s)(u \<mapsto> m\<lparr>mesh_material := newColoredMaterial\<rparr>)),
       activeMaterialsRef := AList.update u newColoredMaterial (activeMaterialsRef s)\<rparr>"

text \<open>The body of the effect on \<open>[selectedPart, selectedPartColor]\<close>: it returns at once
  without a part, without a model or for a part that has no original material;
  otherwise it clones and colours the original, disposes the previous clone and
  installs the new one.\<close>

definition applyPartColor :: "uuid option \<Rightarrow> colour \<Rightarrow> session \<Rightarrow> session" where
  "applyPartColor currentPart colorToApply s =
    (case currentPart of
       None \<Rightarrow> s
     | Some u \<Rightarrow>
        if modelGroupRef s = None then s
        else
          (case map_of (gltfOriginalMaterialsRef s) u of
             None \<Rightarrow> s
           | Some trueOriginalMaterialBase \<Rightarrow>
               (case cloneRef colorToApply trueOriginalMaterialBase s of
                  (newColoredMaterial, s1) \<Rightarrow>
                    installMaterial u newColoredMaterial
                      (disposePrevious u trueOriginalMaterialBase newColoredMaterial s1))))"

text \<open>The operation of the specification: recolour the part \<open>identifier\<close>.\<close>

definition setPartColor :: "uuid \<Rightarrow> colour \<Rightarrow> session \<Rightarrow> session" where
  "setPartColor identifier c s = applyPartColor (Some identifier) c s"

subsection \<open>Colour strings\<close>

text \<open>\<open>color.getHexString()\<close>: the six hexadecimal digits of the RGB value, in lower
  case.\<close>

definition hexDigit :: "nat \<Rightarrow> char" where
  "hexDigit d = ''0123456789abcdef'' ! d"

fun hexDigits :: "nat \<Rightarrow> nat \<Rightarrow> nat list" where
  "hexDigits 0 n = []"
| "hexDigits (Suc k) n = hexDigits k (n div 16) @ [n mod 16]"

definition getHexString :: "colour \<Rightarrow> string" where
  "getHexString c = map hexDigit (hexDigits 6 (unat c))"

text \<open>\<open>new THREE.Color(style)\<close> for a string. A string \<open>#\<close> with six hexadecimal digits
  of either case is read as that RGB value (\<open>parseInt(hex, 16)\<close>).\<close>

definition digitValue :: "char \<Rightarrow> nat option" where
  "digitValue ch =
     map_of [(CHR ''0'', 0), (CHR ''1'', 1), (CHR ''2'', 2), (CHR ''3'', 3), (CHR ''4'', 4),
             (CHR ''5'', 5), (CHR ''6'', 6), (CHR ''7'', 7), (CHR ''8'', 8), (CHR ''9'', 9),
             (CHR ''a'', 10), (CHR ''b'', 11), (CHR ''c'', 12), (CHR ''d'', 13),
             (CHR ''e'', 14), (CHR ''f'', 15),
             (CHR ''A'', 10), (CHR ''B'', 11), (CHR ''C'', 12), (CHR ''D'', 13),
             (CHR ''E'', 14), (CHR ''F'', 15)] ch"

fun digitValues :: "string \<Rightarrow> nat list option" where
  "digitValues [] = Some []"
| "digitValues (ch # rest) =
     (case digitValue ch of
        None \<Rightarrow> None
      | Some d \<Rightarrow> map_option (\<lambda>ds. d # ds) (digitValues rest))"

definition parseInt16 :: "nat list \<Rightarrow> nat" where
  "parseInt16 ds = foldl (\<lambda>a d. 16 * a + d) 0 ds"

definition parseHex :: "string \<Rightarrow> colour option" where
  "parseHex style =
     (case style of
        [] \<Rightarrow> None
      | ch # digits \<Rightarrow>
          if ch = CHR ''#'' \<and> length digits = 6
          then map_option (\<lambda>ds. of_nat (parseInt16 ds)) (digitValues digits)
          else None)"

text \<open>Every other string (three hexadecimal digits, \<open>rgb(...)\<close>, \<open>hsl(...)\<close>, a colour
  name, or a string the library cannot read and answers with white) is read by the
  rendering library in ways the sources of the viewer do not show. The session carries
  that reading as the function \<open>styleColor\<close>, which no operation changes.\<close>

definition threeColor :: "session \<Rightarrow> string \<Rightarrow> colour" where
  "threeColor s style =
     (case parseHex style of Some c \<Rightarrow> c | None \<Rightarrow> styleColor s style)"

subsection \<open>Selecting a part\<close>

definition defaultPartColor :: string where
  "defaultPartColor = ''#FF0000''"

text \<open>\<open>for (const mat of currentMaterial) if (mat.color && mat.color.isColor)
  { colorToSet = `#${mat.color.getHexString()}`; break }\<close>\<close>

fun firstColor :: "material list \<Rightarrow> string" where
  "firstColor [] = defaultPartColor"
| "firstColor (mat # rest) =
     (case mat_color mat of Some c \<Rightarrow> CHR ''#'' # getHexString c | None \<Rightarrow> firstColor rest)"

fun colorToSet :: "session \<Rightarrow> matref \<Rightarrow> string" where
  "colorToSet s (Multi a) =
     (if length (arrays s ! a) > 0 then firstColor (map (\<lambda>x. mats s ! x) (arrays s ! a))
      else defaultPartColor)"
| "colorToSet s (Single a) =
     (case mat_color (mats s ! a) of
        Some c \<Rightarrow> CHR ''#'' # getHexString c
      | None \<Rightarrow> defaultPartColor)"

definition handlePartSelect :: "uuid option \<Rightarrow> session \<Rightarrow> session" where
  "handlePartSelect part s =
     (let s1 = s\<lparr>selectedPart := part\<rparr> in
      case part of
        None \<Rightarrow> s1
      | Some u \<Rightarrow>
          (case meshes s1 u of
             None \<Rightarrow> s1
           | Some m \<Rightarrow> s1\<lparr>selectedPartColor := colorToSet s1 (mesh_material m)\<rparr>))"

text \<open>\<open>onPartSelect\<close> as the viewer sees it: the handler runs, the page renders again, and
  the recolouring effect runs when one of its two dependencies has changed: the part
  object, or the colour string. The effect applies
  \<open>new THREE.Color(selectedPartColor)\<close>.\<close>

definition selectPart :: "uuid option \<Rightarrow> session \<Rightarrow> session" where
  "selectPart part s =
     (let s1 = handlePartSelect part s in
      if selectedPart s1 \<noteq> selectedPart s \<or> selectedPartColor s1 \<noteq> selectedPartColor s
      then applyPartColor (selectedPart s1) (threeColor s1 (selectedPartColor s1)) s1
      else s1)"

text \<open>The colour input and the text input of the control panel:
  \<open>onSelectedPartColorChange\<close> with the string that has been entered.\<close>

definition pickPartColor :: "string \<Rightarrow> session \<Rightarrow> session" where
  "pickPartColor style s =
     (let s1 = s\<lparr>selectedPartColor := style\<rparr> in
      if style \<noteq> selectedPartColor s
      then applyPartColor (selectedPart s1) (threeColor s1 style) s1
      else s1)"

subsection \<open>Bounding boxes and camera framing\<close>

definition vec :: "real \<Rightarrow> real \<Rightarrow> real \<Rightarrow> vec3" where
  "vec x y z = \<lparr>vx = x, vy = y, vz = z\<rparr>"

definition vsub :: "vec3 \<Rightarrow> vec3 \<Rightarrow> vec3" where
  "vsub a b = vec (vx a - vx b) (vy a - vy b) (vz a - vz b)"

text \<open>The point \<open>p\<close> of the group's own coordinates, in world coordinates.\<close>

definition toWorld :: "group \<Rightarrow> vec3 \<Rightarrow> vec3" where
  "toWorld g p =
     vec (vx (g_position g) + vx (g_scale g) * vx p)
         (vy (g_position g) + vy (g_scale g) * vy p)
         (vz (g_position g) + vz (g_scale g) * vz p)"

text \<open>\<open>new THREE.Box3().setFromObject(group)\<close>: the world-space box around the content
  of the group; \<open>None\<close> is the library's empty box, whose size and centre are zero.\<close>

definition setFromObject :: "group \<Rightarrow> (vec3 \<times> vec3) option" where
  "setFromObject g =
     (case content_box g of
        None \<Rightarrow> None
      | Some (lo, hi) \<Rightarrow>
          let a = toWorld g lo; b = toWorld g hi in
          Some (vec (min (vx a) (vx b)) (min (vy a) (vy b)) (min (vz a) (vz b)),
                vec (max (vx a) (vx b)) (max (vy a) (vy b)) (max (vz a) (vz b))))"

definition getSize :: "(vec3 \<times> vec3) option \<Rightarrow> vec3" where
  "getSize box = (case box of None \<Rightarrow> vec 0 0 0 | Some (lo, hi) \<Rightarrow> vsub hi lo)"

definition getCenter :: "(vec3 \<times> vec3) option \<Rightarrow> vec3" where
  "getCenter box =
     (case box of
        None \<Rightarrow> vec 0 0 0
      | Some (lo, hi) \<Rightarrow> vec ((vx lo + vx hi) / 2) ((vy lo + vy hi) / 2) ((vz lo + vz hi) / 2))"

text \<open>\<open>Math.max(size.x, size.y, size.z) || 1\<close>: zero is falsy.\<close>

definition maxDimOf :: "vec3 \<Rightarrow> real" where
  "maxDimOf boxSize =
     (let m = max (vx boxSize) (max (vy boxSize) (vz boxSize)) in if m = 0 then 1 else m)"

text \<open>\<open>let fitScale = 5 / maxDim; if (maxDim === 0 || !Number.isFinite(fitScale)) fitScale = 1\<close>.
  A real number is always finite, so only the first test is left.\<close>

definition fitScaleOf :: "vec3 \<Rightarrow> real" where
  "fitScaleOf boxSize =
     (let maxDim = maxDimOf boxSize; fitScale = 5 / maxDim in
      if maxDim = 0 then 1 else fitScale)"

text \<open>The scale, the recentring and the camera position of
  \<open>adjustCameraAndLightsToModel\<close>; the ground plane and the light it also moves are
  not part of the session modelled here.\<close>

definition adjustCameraAndLightsToModel :: "session \<Rightarrow> session" where
  "adjustCameraAndLightsToModel s =
     (case modelGroupRef s of
        None \<Rightarrow> s
      | Some g \<Rightarrow>
         (case cameraRef s of
            None \<Rightarrow> s
          | Some cam \<Rightarrow>
              if \<not> controlsRef s \<or> \<not> spotLightRef s \<or> \<not> sceneRef s then s
              else
                let boxSize = getSize (setFromObject g);
                    maxDim = maxDimOf boxSize;
                    fitScale = fitScaleOf boxSize;
                    g1 = g\<lparr>g_scale := vec fitScale fitScale fitScale\<rparr>;
                    scaledBox = setFromObject g1;
                    g2 = g1\<lparr>g_position := vsub (g_position g1) (getCenter scaledBox)\<rparr>;
                    cam1 = cam\<lparr>cam_position :=
                             vec 0 (vy (getSize scaledBox) * 0.75) (maxDim * fitScale * 1.5)\<rparr>
                in s\<lparr>modelGroupRef := Some g2, cameraRef := Some cam1\<rparr>))"

subsection \<open>Tearing a model down\<close>

text \<open>\<open>activeMaterialsRef.current.forEach((materialOrArray, uuid) => ...)\<close>: an entry that
  is not the original of its uuid is a clone the session made, and is disposed.\<close>

fun disposeClones :: "(uuid \<times> matref) list \<Rightarrow> session \<Rightarrow> session" where
  "disposeClones [] s = s"
| "disposeClones ((u, materialOrArray) # rest) s =
     disposeClones rest
       (if map_of (gltfOriginalMaterialsRef s) u \<noteq> Some materialOrArray
        then disposeRef materialOrArray s else s)"

fun disposeGeometries :: "uuid list \<Rightarrow> (uuid \<Rightarrow> mesh option) \<Rightarrow> (uuid \<Rightarrow> mesh option)" where
  "disposeGeometries [] ms = ms"
| "disposeGeometries (u # us) ms =
     disposeGeometries us
       (case ms u of None \<Rightarrow> ms | Some obj \<Rightarrow> ms(u \<mapsto> obj\<lparr>geometry_disposed := True\<rparr>))"

text \<open>\<open>if (modelGroupRef.current && scene.children.includes(modelGroupRef.current))
  { scene.remove(...); traverse(dispose geometry) }\<close>\<close>

definition removeModel :: "session \<Rightarrow> session" where
  "removeModel s =
     (case modelGroupRef s of
        None \<Rightarrow> s
      | Some g \<Rightarrow>
          if in_scene g
          then s\<lparr>modelGroupRef := Some (g\<lparr>in_scene := False\<rparr>),
                 meshes := disposeGeometries (children g) (meshes s)\<rparr>
          else s)"

subsection \<open>Loading and unloading\<close>

text \<open>The objects the loader has created are put at the end of the stores.\<close>

definition allocate :: "gltf \<Rightarrow> session \<Rightarrow> session" where
  "allocate g s =
     s\<lparr>mats := mats s @ gltf_materials g,
       arrays := arrays s @ gltf_arrays g,
       meshes := meshes s ++ map_of (gltf_meshes g)\<rparr>"

text \<open>The traversal of the new scene in the success callback.\<close>

fun registerMeshes :: "uuid list \<Rightarrow> session \<Rightarrow> session" where
  "registerMeshes [] s = s"
| "registerMeshes (u # us) s =
     registerMeshes us
       (case meshes s u of
          None \<Rightarrow> s
        | Some child \<Rightarrow>
            s\<lparr>meshes := (meshes s)(u \<mapsto> child\<lparr>castShadow := True, receiveShadow := True\<rparr>),
              gltfOriginalMaterialsRef :=
                AList.update u (mesh_material child) (gltfOriginalMaterialsRef s),
              activeMaterialsRef :=
                AList.update u (mesh_material child) (activeMaterialsRef s)\<rparr>)"

text \<open>The success callback of \<open>loader.parse\<close>.\<close>

definition onParsed :: "gltf \<Rightarrow> session \<Rightarrow> notice \<times> session" where
  "onParsed g s =
     (let s0 = allocate g s;
          s1 = s0\<lparr>modelGroupRef := Some (gltf_scene g)\<rparr>;
          s2 = registerMeshes (children (gltf_scene g)) s1;
          s3 = (if sceneRef s2
                then s2\<lparr>modelGroupRef := map_option (\<lambda>m. m\<lparr>in_scene := True\<rparr>) (modelGroupRef s2)\<rparr>
                else s2);
          s4 = adjustCameraAndLightsToModel s3;
          s5 = s4\<lparr>isLoading := False\<rparr>
      in (ModelLoaded, selectPart None s5))"

text \<open>The error callback of \<open>loader.parse\<close>.\<close>

definition onParseError :: "session \<Rightarrow> notice \<times> session" where
  "onParseError s = (DecodeError, s\<lparr>isLoading := False\<rparr>)"

text \<open>\<open>reader.onload\<close>. The loader it tests is the one the effect has captured, which is
  not null; the previous model is torn down before the loader is asked to parse. When
  the loader throws, the exception leaves the handler: nothing after the call runs, no
  toast is shown and \<open>setIsLoading(false)\<close> is not reached.\<close>

definition readerOnload :: "decode_outcome option \<Rightarrow> session \<Rightarrow> notice \<times> session" where
  "readerOnload result s =
     (case result of
        None \<Rightarrow> (FileReadIssue, s\<lparr>isLoading := False\<rparr>)
      | Some decoding \<Rightarrow>
          if \<not> sceneRef s then (FileReadIssue, s\<lparr>isLoading := False\<rparr>)
          else
            let s1 = disposeClones (activeMaterialsRef s) s;
                s2 = s1\<lparr>gltfOriginalMaterialsRef := [], activeMaterialsRef := []\<rparr>;
                s3 = removeModel s2;
                s4 = s3\<lparr>modelGroupRef := None\<rparr>
            in (case decoding of
                  Decoded g \<Rightarrow> onParsed g s4
                | Malformed \<Rightarrow> onParseError s4
                | Throws \<Rightarrow> (UncaughtError, s4)))"

text \<open>The branch of the effect for \<open>modelFile = null\<close>.\<close>

definition clearModel :: "session \<Rightarrow> session" where
  "clearModel s =
     (let s1 = disposeClones (activeMaterialsRef s) s;
          s2 = removeModel s1;
          s3 = s2\<lparr>modelGroupRef := None\<rparr>;
          s4 = s3\<lparr>gltfOriginalMaterialsRef := [], activeMaterialsRef := []\<rparr>;
          s5 = selectPart None s4
      in s5\<lparr>isLoading := False\<rparr>)"

text \<open>The effect on \<open>[modelFile, ...]\<close>, with what becomes of the file.\<close>

definition loadModelEffect :: "file_outcome option \<Rightarrow> session \<Rightarrow> notice \<times> session" where
  "loadModelEffect modelFile s =
     (if \<not> gltfLoaderRef s \<or> \<not> sceneRef s
      then (NoNotice, if modelFile \<noteq> None \<and> \<not> isLoading s then s\<lparr>isLoading := True\<rparr> else s)
      else
        (case modelFile of
           None \<Rightarrow> (NoNotice, clearModel s)
         | Some outcome \<Rightarrow>
             let s1 = s\<lparr>isLoading := True\<rparr> in
             (case outcome of
                ReadFailed \<Rightarrow> (ReadError, s1\<lparr>isLoading := False\<rparr>)
              | ReadDone result \<Rightarrow> readerOnload result s1)))"

text \<open>The two operations of the specification.\<close>

definition load :: "file_outcome \<Rightarrow> session \<Rightarrow> notice \<times> session" where
  "load payload s = loadModelEffect (Some payload) s"

definition unload :: "session \<Rightarrow> session" where
  "unload s = snd (loadModelEffect None s)"

subsection \<open>Exports\<close>

text \<open>\<open>Math.round\<close> rounds a half upwards.\<close>

definition mathRound :: "real \<Rightarrow> int" where
  "mathRound x = \<lfloor>x + 1 / 2\<rfloor>"

definition setSize :: "int \<Rightarrow> int \<Rightarrow> renderer \<Rightarrow> renderer" where
  "setSize w h r = r\<lparr>r_width := w, r_height := h\<rparr>"

text \<open>The result is the size of the image that is offered for download.\<close>

definition exportToImage :: "real \<Rightarrow> session \<Rightarrow> (export_error + int \<times> int) \<times> session" where
  "exportToImage scale s =
     (case (rendererRef s, cameraRef s, mountRef s) of
        (Some r, Some cam, Some mnt) \<Rightarrow>
          if \<not> sceneRef s then (Inl ExportError, s)
          else
            let originalWidth = clientWidth mnt;
                originalHeight = clientHeight mnt;
                targetWidth = mathRound (real_of_int originalWidth * scale);
                targetHeight = mathRound (real_of_int originalHeight * scale);
                currentPixelRatio = pixelRatio r;
                originalAspect = aspect cam;
                r1 = setSize targetWidth targetHeight r;
                cam1 = cam\<lparr>aspect := real_of_int targetWidth / real_of_int targetHeight\<rparr>;
                r2 = setSize originalWidth originalHeight r1;
                r3 = r2\<lparr>pixelRatio := currentPixelRatio\<rparr>;
                cam2 = cam1\<lparr>aspect := originalAspect\<rparr>
            in (Inr (targetWidth, targetHeight),
                s\<lparr>rendererRef := Some r3, cameraRef := Some cam2\<rparr>)
      | _ \<Rightarrow> (Inl ExportError, s))"

text \<open>The window's resize handler, which keeps the renderer at the size of the mount.\<close>

definition handleResize :: "session \<Rightarrow> session" where
  "handleResize s =
     (case (rendererRef s, cameraRef s, mountRef s) of
        (Some r, Some cam, Some mnt) \<Rightarrow>
          s\<lparr>rendererRef := Some (setSize (clientWidth mnt) (clientHeight mnt) r),
            cameraRef := Some (cam\<lparr>aspect := real_of_int (clientWidth mnt) / real_of_int (clientHeight mnt)\<rparr>)\<rparr>
      | _ \<Rightarrow> s)"

text \<open>Every mesh of the model gets its active material again before the exporter runs.\<close>

fun reapplyActive :: "uuid list \<Rightarrow> session \<Rightarrow> session" where
  "reapplyActive [] s = s"
| "reapplyActive (u # us) s =
     reapplyActive us
       (case (meshes s u, map_of (activeMaterialsRef s) u) of
          (Some child, Some m) \<Rightarrow> s\<lparr>meshes := (meshes s)(u \<mapsto> child\<lparr>mesh_material := m\<rparr>)\<rparr>
        | _ \<Rightarrow> s)"

text \<open>\<open>exporterAccepts\<close> says whether the exporter calls its success callback.\<close>

definition exportToGLB :: "bool \<Rightarrow> session \<Rightarrow> (export_error + unit) \<times> session" where
  "exportToGLB exporterAccepts s =
     (case modelGroupRef s of
        None \<Rightarrow> (Inl ExportError, s)
      | Some g \<Rightarrow>
          let s1 = (if activeMaterialsRef s \<noteq> [] then reapplyActive (children g) s else s)
          in (if exporterAccepts then Inr () else Inl ExportError, s1))"

subsection \<open>References, contents and the session invariant\<close>

text \<open>The addresses of the materials behind a value: the material itself, or the
  components of the array.\<close>

fun refAddrs :: "session \<Rightarrow> matref \<Rightarrow> nat list" where
  "refAddrs s (Single a) = [a]"
| "refAddrs s (Multi a) = arrays s ! a"

text \<open>A reference is to objects that exist. A JavaScript value always is; in the model
  it is a condition on the session.\<close>

fun refOk :: "session \<Rightarrow> matref \<Rightarrow> bool" where
  "refOk s (Single a) = (a < length (mats s))"
| "refOk s (Multi a) =
     (a < length (arrays s) \<and> list_all (\<lambda>x. x < length (mats s)) (arrays s ! a))"

definition wellFormed :: "session \<Rightarrow> bool" where
  "wellFormed s =
     (list_all (\<lambda>(u, r). refOk s r) (gltfOriginalMaterialsRef s)
      \<and> list_all (\<lambda>(u, r). refOk s r) (activeMaterialsRef s))"

text \<open>The materials behind a value, and behind the active entry of a part.\<close>

definition components :: "session \<Rightarrow> matref \<Rightarrow> material list" where
  "components s r = map (\<lambda>a. mats s ! a) (refAddrs s r)"

definition activeContent :: "session \<Rightarrow> uuid \<Rightarrow> material list option" where
  "activeContent s u = map_option (components s) (map_of (activeMaterialsRef s) u)"

definition activeColors :: "session \<Rightarrow> uuid \<Rightarrow> colour option list option" where
  "activeColors s u = map_option (map mat_color) (activeContent s u)"

text \<open>Following the words of the claim about selection: the hex colour of the first
  component of the live material that has a colour, or the default \<open>#FF0000\<close>; as the
  string the page keeps, and as the RGB value it denotes.\<close>

definition liveColor :: "session \<Rightarrow> matref \<Rightarrow> string" where
  "liveColor s r =
     (case List.find (\<lambda>m. mat_color m \<noteq> None) (components s r) of
        Some m \<Rightarrow> CHR ''#'' # getHexString (the (mat_color m))
      | None \<Rightarrow> ''#FF0000'')"

definition liveRGB :: "session \<Rightarrow> matref \<Rightarrow> colour" where
  "liveRGB s r =
     (case List.find (\<lambda>m. mat_color m \<noteq> None) (components s r) of
        Some m \<Rightarrow> the (mat_color m)
      | None \<Rightarrow> 0xFF0000)"

text \<open>The addresses of all materials the loader has supplied for the current model.\<close>

definition originalAddrs :: "session \<Rightarrow> nat list" where
  "originalAddrs s = concat (map (\<lambda>(u, r). refAddrs s r) (gltfOriginalMaterialsRef s))"

text \<open>\<open>cl\<close> is what cloning and colouring makes of \<open>orig\<close>, for some colour: the same
  class, and a colour exactly when the clone of \<open>orig\<close> can take one.\<close>

definition derivedFrom :: "material \<Rightarrow> material \<Rightarrow> bool" where
  "derivedFrom cl orig =
     (mat_class cl = mat_class orig
      \<and> (mat_color cl = None) = (mat_color orig = None \<and> mat_class orig = OtherMaterial))"

fun sameShape :: "matref \<Rightarrow> matref \<Rightarrow> bool" where
  "sameShape (Single a) (Single b) = True"
| "sameShape (Multi a) (Multi b) = True"
| "sameShape r r' = False"

text \<open>The active value \<open>act\<close> is a clone made from the original \<open>orig\<close>: another object
  of the same shape, whose materials are derived from those of the original one by one
  and are none of the loader's.\<close>

definition isCloneOf :: "session \<Rightarrow> matref \<Rightarrow> matref \<Rightarrow> bool" where
  "isCloneOf s act orig =
     (act \<noteq> orig \<and> sameShape act orig
      \<and> list_all2 derivedFrom (components s act) (components s orig)
      \<and> list_all (\<lambda>a. a \<notin> set (originalAddrs s)) (refAddrs s act))"

definition sessionInvariant :: "session \<Rightarrow> bool" where
  "sessionInvariant s =
     (wellFormed s
      \<and> distinct (map fst (activeMaterialsRef s))
      \<and> list_all
          (\<lambda>(u, act). case map_of (gltfOriginalMaterialsRef s) u of
                         None \<Rightarrow> False
                       | Some orig \<Rightarrow> act = orig \<or> isCloneOf s act orig)
          (activeMaterialsRef s))"

text \<open>From \<open>s\<close> to \<open>t\<close> the stores have only grown, no material has changed its class
  or its colour, and the original materials are the same.\<close>

definition storeGrows :: "session \<Rightarrow> session \<Rightarrow> bool" where
  "storeGrows s t =
     (length (mats s) \<le> length (mats t)
      \<and> (\<forall>i < length (mats s). mat_class (mats t ! i) = mat_class (mats s ! i)
                               \<and> mat_color (mats t ! i) = mat_color (mats s ! i))
      \<and> length (arrays s) \<le> length (arrays t)
      \<and> (\<forall>a < length (arrays s). arrays t ! a = arrays s ! a)
      \<and> gltfOriginalMaterialsRef t = gltfOriginalMaterialsRef s)"

text \<open>The decoded model fits the session it is loaded into: the material of every mesh
  that the traversal of the new scene finds is an object that exists once the loader's
  objects are in the stores.\<close>

definition gltfOk :: "session \<Rightarrow> gltf \<Rightarrow> bool" where
  "gltfOk s g =
     list_all
       (\<lambda>u. case meshes (allocate g s) u of
               None \<Rightarrow> True
             | Some m \<Rightarrow> refOk (allocate g s) (mesh_material m))
       (children (gltf_scene g))"

subsection \<open>A concrete session\<close>

text \<open>The session after the scene has been set up in an 800 by 600 mount, before any
  model is loaded. The examples enter six-digit hex strings only; \<open>styleColor\<close> is
  white for every string.\<close>

definition mountedSession :: session where
  "mountedSession =
     \<lparr>mats = [], arrays = [], meshes = Map.empty,
      sceneRef = True,
      cameraRef = Some \<lparr>aspect = 800 / 600, cam_position = vec 0 1.5 5\<rparr>,
      rendererRef = Some \<lparr>r_width = 800, r_height = 600, pixelRatio = 2\<rparr>,
      mountRef = Some \<lparr>clientWidth = 800, clientHeight = 600\<rparr>,
      controlsRef = True, spotLightRef = True, gltfLoaderRef = True,
      modelGroupRef = None,
      gltfOriginalMaterialsRef = [], activeMaterialsRef = [],
      isLoading = False, selectedPart = None, selectedPartColor = defaultPartColor,
      styleColor = (\<lambda>style. 0xFFFFFF)\<rparr>"

text \<open>A decoded model of two meshes: \<open>body\<close> has one green standard material, \<open>wheel\<close>
  has an array of a blue basic material and a material without a colour. Its bounding
  box is the cube of edge 2 around (10, 10, 10).\<close>

definition demoGltf :: gltf where
  "demoGltf =
     \<lparr>gltf_scene =
        \<lparr>children = [''body'', ''wheel''],
         g_position = vec 0 0 0, g_scale = vec 1 1 1,
         content_box = Some (vec 9 9 9, vec 11 11 11),
         in_scene = False\<rparr>,
      gltf_meshes =
        [(''body'', \<lparr>mesh_material = Single 0, castShadow = False, receiveShadow = False,
                     geometry_disposed = False\<rparr>),
         (''wheel'', \<lparr>mesh_material = Multi 0, castShadow = False, receiveShadow = False,
                      geometry_disposed = False\<rparr>)],
      gltf_materials =
        [\<lparr>mat_class = MeshStandardMaterial, mat_color = Some 0x00FF00, mat_disposed = False\<rparr>,
         \<lparr>mat_class = MeshBasicMaterial, mat_color = Some 0x0000FF, mat_disposed = False\<rparr>,
         \<lparr>mat_class = OtherMaterial, mat_color = None, mat_disposed = False\<rparr>],
      gltf_arrays = [[1, 2]]\<rparr>"

text \<open>The session \<open>mountedSession\<close> becomes when \<open>demoGltf\<close> is loaded into it: the model
  is scaled by 5/2 and moved so that the centre of its box is the origin.\<close>

definition loadedSession :: session where
  "loadedSession =
     \<lparr>mats =
        [\<lparr>mat_class = MeshStandardMaterial, mat_color = Some 0x00FF00, mat_disposed = False\<rparr>,
         \<lparr>mat_class = MeshBasicMaterial, mat_color = Some 0x0000FF, mat_disposed = False\<rparr>,
         \<lparr>mat_class = OtherMaterial, mat_color = None, mat_disposed = False\<rparr>],
      arrays = [[1, 2]],
      meshes =
        [''body'' \<mapsto> \<lparr>mesh_material = Single 0, castShadow = True, receiveShadow = True,
                        geometry_disposed = False\<rparr>,
         ''wheel'' \<mapsto> \<lparr>mesh_material = Multi 0, castShadow = True, receiveShadow = True,
                         geometry_disposed = False\<rparr>],
      sceneRef = True,
      cameraRef = Some \<lparr>aspect = 800 / 600, cam_position = vec 0 (15 / 4) (15 / 2)\<rparr>,
      rendererRef = Some \<lparr>r_width = 800, r_height = 600, pixelRatio = 2\<rparr>,
      mountRef = Some \<lparr>clientWidth = 800, clientHeight = 600\<rparr>,
      controlsRef = True, spotLightRef = True, gltfLoaderRef = True,
      modelGroupRef =
        Some \<lparr>children = [''body'', ''wheel''],
              g_position = vec (- 25) (- 25) (- 25), g_scale = vec (5 / 2) (5 / 2) (5 / 2),
              content_box = Some (vec 9 9 9, vec 11 11 11),
              in_scene = True\<rparr>,
      gltfOriginalMaterialsRef = [(''body'', Single 0), (''wheel'', Multi 0)],
      activeMaterialsRef = [(''body'', Single 0), (''wheel'', Multi 0)],
      isLoading = False, selectedPart = None, selectedPartColor = defaultPartColor,
      styleColor = (\<lambda>style. 0xFFFFFF)\<rparr>"

text \<open>The loaded session after the user has clicked the wheel, chosen red in the colour
  input and clicked beside the model: the active material of the wheel is the second
  clone, which is red; the first clone, which was blue, has been disposed.\<close>

definition recolouredSession :: session where
  "recolouredSession =
     loadedSession
       \<lparr>mats :=
          [\<lparr>mat_class = MeshStandardMaterial, mat_color = Some 0x00FF00, mat_disposed = False\<rparr>,
           \<lparr>mat_class = MeshBasicMaterial, mat_color = Some 0x0000FF, mat_disposed = False\<rparr>,
           \<lparr>mat_class = OtherMaterial, mat_color = None, mat_disposed = False\<rparr>,
           \<lparr>mat_class = MeshBasicMaterial, mat_color = Some 0x0000FF, mat_disposed = True\<rparr>,
           \<lparr>mat_class = OtherMaterial, mat_color = None, mat_disposed = True\<rparr>,
           \<lparr>mat_class = MeshBasicMaterial, mat_color = Some 0xFF0000, mat_disposed = False\<rparr>,
           \<lparr>mat_class = OtherMaterial, mat_color = None, mat_disposed = False\<rparr>],
        arrays := [[1, 2], [3, 4], [5, 6]],
        meshes :=
          [''body'' \<mapsto> \<lparr>mesh_material = Single 0, castShadow = True, receiveShadow = True,
                          geometry_disposed = False\<rparr>,
           ''wheel'' \<mapsto> \<lparr>mesh_material = Multi 2, castShadow = True, receiveShadow = True,
                           geometry_disposed = False\<rparr>],
        activeMaterialsRef := [(''body'', Single 0), (''wheel'', Multi 2)],
        selectedPartColor := ''#ff0000''\<rparr>"

text \<open>The same model with all its geometry in the single point (1, 1, 1).\<close>

definition pointGltf :: gltf where
  "pointGltf =
     demoGltf\<lparr>gltf_scene := (gltf_scene demoGltf)\<lparr>content_box := Some (vec 1 1 1, vec 1 1 1)\<rparr>\<rparr>"

section \<open>Basic facts\<close>

subsection \<open>Writing and reading a colour string\<close>

lemma hexDigits_6:
  "hexDigits 6 n =
     [n div 16 div 16 div 16 div 16 div 16 mod 16, n div 16 div 16 div 16 div 16 mod 16,
      n div 16 div 16 div 16 mod 16, n div 16 div 16 mod 16, n div 16 mod 16, n mod 16]"
proof -
  have six: "(6::nat) = Suc (Suc (Suc (Suc (Suc (Suc 0)))))" by simp
  show ?thesis unfolding six by simp
qed

lemma parseHex_default: "parseHex defaultPartColor = Some 0xFF0000"
  by (simp add: parseHex_def digitValue_def parseInt16_def defaultPartColor_def)

lemma digitValue_table:
  "map (\<lambda>d. digitValue (hexDigit d)) [0, 1, 2, 3, 4, 5, 6, 7, 8, 9, 10, 11, 12, 13, 14, 15]
     = map Some [0, 1, 2, 3, 4, 5, 6, 7, 8, 9, 10, 11, 12, 13, 14, 15]"
  by (simp add: digitValue_def hexDigit_def)

lemma digitValue_hexDigit: "d < 16 \<Longrightarrow> digitValue (hexDigit d) = Some d"
proof -
  assume d: "d < 16"
  have e: "[0, 1, 2, 3, 4, 5, 6, 7, 8, 9, 10, 11, 12, 13, 14, 15] = [0 ..< (16::nat)]"
    by (simp add: upt_rec [of _ "numeral _"] upt_rec [of _ "Suc _"])
  have "map (\<lambda>d. digitValue (hexDigit d)) [0 ..< 16] ! d = digitValue (hexDigit d)"
    using d by (simp del: upt_rec_numeral)
  moreover have "map Some [0 ..< 16] ! d = Some d"
    using d by (simp del: upt_rec_numeral)
  ultimately show ?thesis using digitValue_table unfolding e by simp
qed

lemma hexDigits_small: "d \<in> set (hexDigits k n) \<Longrightarrow> d < 16"
  by (induction k arbitrary: n) auto

lemma length_hexDigits [simp]: "length (hexDigits k n) = k"
  by (induction k arbitrary: n) auto

lemma digitValues_hexDigit:
  "(\<And>d. d \<in> set ds \<Longrightarrow> d < 16) \<Longrightarrow> digitValues (map hexDigit ds) = Some ds"
  by (induction ds) (simp_all add: digitValue_hexDigit)

lemma parseInt16_hexDigits: "parseInt16 (hexDigits k n) = n mod 16 ^ k"
proof (induction k arbitrary: n)
  case 0
  then show ?case by (simp add: parseInt16_def)
next
  case (Suc k)
  have "parseInt16 (hexDigits (Suc k) n) = 16 * parseInt16 (hexDigits k (n div 16)) + n mod 16"
    by (simp add: parseInt16_def)
  also have "\<dots> = 16 * (n div 16 mod 16 ^ k) + n mod 16" by (simp add: Suc)
  also have "\<dots> = n mod 16 ^ Suc k" by (simp add: mod_mult2_eq)
  finally show ?case .
qed

text \<open>Reading the string that \<open>getHexString\<close> writes gives the colour back.\<close>

lemma parseHex_getHexString: "parseHex (CHR ''#'' # getHexString c) = Some c"
proof -
  have "unat c < 16 ^ 6" using unsigned_less [of c] by simp
  then have "parseInt16 (hexDigits 6 (unat c)) = unat c"
    by (simp add: parseInt16_hexDigits)
  moreover have "digitValues (map hexDigit (hexDigits 6 (unat c))) = Some (hexDigits 6 (unat c))"
    by (rule digitValues_hexDigit) (rule hexDigits_small)
  ultimately show ?thesis
    by (simp add: parseHex_def getHexString_def)
qed

lemma threeColor_hex: "threeColor s (CHR ''#'' # getHexString c) = c"
  by (simp add: threeColor_def parseHex_getHexString)

lemma threeColor_default: "threeColor s defaultPartColor = 0xFF0000"
  by (simp add: threeColor_def parseHex_default)

lemma threeColor_cong: "styleColor t = styleColor s \<Longrightarrow> threeColor t style = threeColor s style"
  by (simp add: threeColor_def split: option.splits)

subsection \<open>What each step leaves alone\<close>

lemma disposeRef_frame [simp]:
  "arrays (disposeRef r s) = arrays s"
  "meshes (disposeRef r s) = meshes s"
  "sceneRef (disposeRef r s) = sceneRef s"
  "cameraRef (disposeRef r s) = cameraRef s"
  "rendererRef (disposeRef r s) = rendererRef s"
  "mountRef (disposeRef r s) = mountRef s"
  "controlsRef (disposeRef r s) = controlsRef s"
  "spotLightRef (disposeRef r s) = spotLightRef s"
  "gltfLoaderRef (disposeRef r s) = gltfLoaderRef s"
  "modelGroupRef (disposeRef r s) = modelGroupRef s"
  "gltfOriginalMaterialsRef (disposeRef r s) = gltfOriginalMaterialsRef s"
  "activeMaterialsRef (disposeRef r s) = activeMaterialsRef s"
  "isLoading (disposeRef r s) = isLoading s"
  "selectedPart (disposeRef r s) = selectedPart s"
  "selectedPartColor (disposeRef r s) = selectedPartColor s"
  by (cases r; simp)+

lemma disposeClones_frame [simp]:
  "arrays (disposeClones al s) = arrays s"
  "meshes (disposeClones al s) = meshes s"
  "sceneRef (disposeClones al s) = sceneRef s"
  "cameraRef (disposeClones al s) = cameraRef s"
  "rendererRef (disposeClones al s) = rendererRef s"
  "mountRef (disposeClones al s) = mountRef s"
  "controlsRef (disposeClones al s) = controlsRef s"
  "spotLightRef (disposeClones al s) = spotLightRef s"
  "gltfLoaderRef (disposeClones al s) = gltfLoaderRef s"
  "modelGroupRef (disposeClones al s) = modelGroupRef s"
  "gltfOriginalMaterialsRef (disposeClones al s) = gltfOriginalMaterialsRef s"
  "activeMaterialsRef (disposeClones al s) = activeMaterialsRef s"
  "isLoading (disposeClones al s) = isLoading s"
  "selectedPart (disposeClones al s) = selectedPart s"
  "selectedPartColor (disposeClones al s) = selectedPartColor s"
  by (induction al s rule: disposeClones.induct; simp)+

lemma removeModel_frame [simp]:
  "mats (removeModel s) = mats s"
  "arrays (removeModel s) = arrays s"
  "sceneRef (removeModel s) = sceneRef s"
  "cameraRef (removeModel s) = cameraRef s"
  "rendererRef (removeModel s) = rendererRef s"
  "mountRef (removeModel s) = mountRef s"
  "controlsRef (removeModel s) = controlsRef s"
  "spotLightRef (removeModel s) = spotLightRef s"
  "gltfLoaderRef (removeModel s) = gltfLoaderRef s"
  "gltfOriginalMaterialsRef (removeModel s) = gltfOriginalMaterialsRef s"
  "activeMaterialsRef (removeModel s) = activeMaterialsRef s"
  "isLoading (removeModel s) = isLoading s"
  "selectedPart (removeModel s) = selectedPart s"
  "selectedPartColor (removeModel s) = selectedPartColor s"
  by (simp_all add: removeModel_def split: option.splits)

lemma registerMeshes_frame [simp]:
  "mats (registerMeshes us s) = mats s"
  "arrays (registerMeshes us s) = arrays s"
  "sceneRef (registerMeshes us s) = sceneRef s"
  "cameraRef (registerMeshes us s) = cameraRef s"
  "rendererRef (registerMeshes us s) = rendererRef s"
  "mountRef (registerMeshes us s) = mountRef s"
  "controlsRef (registerMeshes us s) = controlsRef s"
  "spotLightRef (registerMeshes us s) = spotLightRef s"
  "gltfLoaderRef (registerMeshes us s) = gltfLoaderRef s"
  "modelGroupRef (registerMeshes us s) = modelGroupRef s"
  "isLoading (registerMeshes us s) = isLoading s"
  "selectedPart (registerMeshes us s) = selectedPart s"
  "selectedPartColor (registerMeshes us s) = selectedPartColor s"
  by (induction us s rule: registerMeshes.induct; simp split: option.splits)+

lemma adjustCamera_frame [simp]:
  "mats (adjustCameraAndLightsToModel s) = mats s"
  "arrays (adjustCameraAndLightsToModel s) = arrays s"
  "meshes (adjustCameraAndLightsToModel s) = meshes s"
  "sceneRef (adjustCameraAndLightsToModel s) = sceneRef s"
  "rendererRef (adjustCameraAndLightsToModel s) = rendererRef s"
  "mountRef (adjustCameraAndLightsToModel s) = mountRef s"
  "gltfLoaderRef (adjustCameraAndLightsToModel s) = gltfLoaderRef s"
  "gltfOriginalMaterialsRef (adjustCameraAndLightsToModel s) = gltfOriginalMaterialsRef s"
  "activeMaterialsRef (adjustCameraAndLightsToModel s) = activeMaterialsRef s"
  "isLoading (adjustCameraAndLightsToModel s) = isLoading s"
  "selectedPart (adjustCameraAndLightsToModel s) = selectedPart s"
  "selectedPartColor (adjustCameraAndLightsToModel s) = selectedPartColor s"
  "(modelGroupRef (adjustCameraAndLightsToModel s) = None) = (modelGroupRef s = None)"
  by (simp_all add: adjustCameraAndLightsToModel_def Let_def split: option.splits)

lemma applyPartColor_None [simp]: "applyPartColor None c s = s"
  by (simp add: applyPartColor_def)

lemma selectPart_None [simp]: "selectPart None s = s\<lparr>selectedPart := None\<rparr>"
  by (simp add: selectPart_def handlePartSelect_def Let_def)

subsection \<open>Clearing the model\<close>

lemma clearModel_fields:
  "gltfOriginalMaterialsRef (clearModel s) = []"
  "activeMaterialsRef (clearModel s) = []"
  "modelGroupRef (clearModel s) = None"
  "selectedPart (clearModel s) = None"
  "isLoading (clearModel s) = False"
  "gltfLoaderRef (clearModel s) = gltfLoaderRef s"
  "sceneRef (clearModel s) = sceneRef s"
  by (simp_all add: clearModel_def Let_def)

lemma clearModel_fixed:
  "modelGroupRef s = None \<Longrightarrow> gltfOriginalMaterialsRef s = [] \<Longrightarrow> activeMaterialsRef s = []
   \<Longrightarrow> selectedPart s = None \<Longrightarrow> \<not> isLoading s \<Longrightarrow> clearModel s = s"
  by (cases s) (simp add: clearModel_def Let_def removeModel_def)

lemma clearModel_idem: "clearModel (clearModel s) = clearModel s"
  by (rule clearModel_fixed) (simp_all add: clearModel_fields)

lemma unload_idem: "unload (unload s) = unload s"
  by (simp add: unload_def loadModelEffect_def clearModel_fields clearModel_idem)

lemma unload_ready:
  "gltfLoaderRef s \<Longrightarrow> sceneRef s \<Longrightarrow> unload s = clearModel s"
  by (simp add: unload_def loadModelEffect_def)

subsection \<open>Loading\<close>

lemma onParsed_ready [simp]:
  "gltfLoaderRef (snd (onParsed g s)) = gltfLoaderRef s"
  "sceneRef (snd (onParsed g s)) = sceneRef s"
  by (simp_all add: onParsed_def Let_def allocate_def)

lemma readerOnload_ready [simp]:
  "gltfLoaderRef (snd (readerOnload r s)) = gltfLoaderRef s"
  "sceneRef (snd (readerOnload r s)) = sceneRef s"
  by (simp_all add: readerOnload_def onParseError_def Let_def
      split: option.splits decode_outcome.splits)

lemma load_ready [simp]:
  "gltfLoaderRef (snd (load payload s)) = gltfLoaderRef s"
  "sceneRef (snd (load payload s)) = sceneRef s"
  by (simp_all add: load_def loadModelEffect_def Let_def split: file_outcome.splits)

lemma load_Decoded:
  assumes "gltfLoaderRef s" "sceneRef s"
  shows "load (ReadDone (Some (Decoded g))) s =
    onParsed g
      ((removeModel ((disposeClones (activeMaterialsRef s) (s\<lparr>isLoading := True\<rparr>))
          \<lparr>gltfOriginalMaterialsRef := [], activeMaterialsRef := []\<rparr>))
       \<lparr>modelGroupRef := None\<rparr>)"
  using assms
  by (simp add: load_def loadModelEffect_def readerOnload_def Let_def)

lemma load_Malformed_fields:
  assumes "gltfLoaderRef s" "sceneRef s"
  shows "fst (load (ReadDone (Some Malformed)) s) = DecodeError"
    and "gltfOriginalMaterialsRef (snd (load (ReadDone (Some Malformed)) s)) = []"
    and "activeMaterialsRef (snd (load (ReadDone (Some Malformed)) s)) = []"
    and "modelGroupRef (snd (load (ReadDone (Some Malformed)) s)) = None"
    and "selectedPart (snd (load (ReadDone (Some Malformed)) s)) = selectedPart s"
    and "selectedPartColor (snd (load (ReadDone (Some Malformed)) s)) = selectedPartColor s"
    and "isLoading (snd (load (ReadDone (Some Malformed)) s)) = False"
  using assms
  by (simp_all add: load_def loadModelEffect_def readerOnload_def onParseError_def Let_def)

lemma load_Throws_fields:
  assumes "gltfLoaderRef s" "sceneRef s"
  shows "fst (load (ReadDone (Some Throws)) s) = UncaughtError"
    and "gltfOriginalMaterialsRef (snd (load (ReadDone (Some Throws)) s)) = []"
    and "activeMaterialsRef (snd (load (ReadDone (Some Throws)) s)) = []"
    and "modelGroupRef (snd (load (ReadDone (Some Throws)) s)) = None"
    and "selectedPart (snd (load (ReadDone (Some Throws)) s)) = selectedPart s"
    and "selectedPartColor (snd (load (ReadDone (Some Throws)) s)) = selectedPartColor s"
    and "isLoading (snd (load (ReadDone (Some Throws)) s)) = True"
  using assms
  by (simp_all add: load_def loadModelEffect_def readerOnload_def Let_def)

subsection \<open>Exporting a still image\<close>

lemma exportToImage_synced:
  assumes "rendererRef s = Some r" "cameraRef s = Some cam" "mountRef s = Some mnt" "sceneRef s"
    and "r_width r = clientWidth mnt" "r_height r = clientHeight mnt"
  shows "exportToImage k s =
    (Inr (mathRound (real_of_int (clientWidth mnt) * k), mathRound (real_of_int (clientHeight mnt) * k)), s)"
  using assms by (cases s; cases r; cases cam) (simp add: exportToImage_def Let_def setSize_def)

lemma exportToImage_not_ready:
  assumes "rendererRef s = None \<or> cameraRef s = None \<or> mountRef s = None \<or> \<not> sceneRef s"
  shows "exportToImage k s = (Inl ExportError, s)"
  using assms by (auto simp: exportToImage_def split: option.splits)

lemma handleResize_synced:
  assumes "rendererRef (handleResize s) = Some r" "mountRef (handleResize s) = Some mnt"
    and "cameraRef s \<noteq> None"
  shows "r_width r = clientWidth mnt \<and> r_height r = clientHeight mnt"
  using assms by (auto simp: handleResize_def setSize_def split: option.splits)

subsection \<open>Camera framing\<close>

lemma maxDimOf_nonzero: "maxDimOf v \<noteq> 0"
  by (simp add: maxDimOf_def Let_def)

lemma fitScaleOf_eq: "fitScaleOf v = 5 / maxDimOf v"
  by (simp add: fitScaleOf_def Let_def maxDimOf_nonzero)

lemma fitScaleOf_extent:
  "max (vx v) (max (vy v) (vz v)) \<noteq> 0 \<Longrightarrow> fitScaleOf v = 5 / max (vx v) (max (vy v) (vz v))"
  by (simp add: fitScaleOf_eq maxDimOf_def Let_def)

lemma fitScaleOf_degenerate:
  "max (vx v) (max (vy v) (vz v)) = 0 \<Longrightarrow> fitScaleOf v = 5"
  by (simp add: fitScaleOf_eq maxDimOf_def Let_def)

text \<open>A group that is not scaled or moved yet, around a cube of edge 2 centred at
  (10, 10, 10): it is scaled by 5/2, and the centre of its box is then the origin.\<close>

lemma cube_framing:
  assumes "modelGroupRef s = Some g" "cameraRef s = Some cam" "controlsRef s" "spotLightRef s"
    "sceneRef s"
    and "content_box g = Some (vec 9 9 9, vec 11 11 11)"
    and "g_position g = vec 0 0 0" "g_scale g = vec 1 1 1"
  shows "\<exists>g'. modelGroupRef (adjustCameraAndLightsToModel s) = Some g'
            \<and> g_scale g' = vec (5 / 2) (5 / 2) (5 / 2)
            \<and> getCenter (setFromObject g') = vec 0 0 0
            \<and> getSize (setFromObject g') = vec 5 5 5"
  using assms
  by (simp add: adjustCameraAndLightsToModel_def Let_def setFromObject_def toWorld_def vec_def
      getSize_def getCenter_def vsub_def fitScaleOf_def maxDimOf_def)


subsection \<open>Disposing and cloning in the stores\<close>

lemma length_dispose [simp]: "length (dispose a ms) = length ms"
  by (simp add: dispose_def)

lemma nth_dispose_other: "i \<noteq> a \<Longrightarrow> dispose a ms ! i = ms ! i"
  by (simp add: dispose_def)

lemma dispose_keeps [simp]:
  "mat_color (dispose a ms ! i) = mat_color (ms ! i)"
  "mat_class (dispose a ms ! i) = mat_class (ms ! i)"
proof -
  have "dispose a ms ! i = ms ! i \<or> dispose a ms ! i = (ms ! i)\<lparr>mat_disposed := True\<rparr>"
  proof (cases "a < length ms")
    case True
    then show ?thesis by (cases "i = a") (simp_all add: dispose_def)
  next
    case False
    then have "length ms \<le> a" by simp
    then show ?thesis by (simp add: dispose_def list_update_beyond)
  qed
  then show "mat_color (dispose a ms ! i) = mat_color (ms ! i)"
    and "mat_class (dispose a ms ! i) = mat_class (ms ! i)"
    by auto
qed

lemma disposed_dispose:
  "i < length ms \<Longrightarrow> mat_disposed (dispose a ms ! i) = (mat_disposed (ms ! i) \<or> i = a)"
  by (cases "i = a") (simp_all add: dispose_def)

lemma length_fold_dispose [simp]: "length (fold dispose ds ms) = length ms"
  by (induction ds arbitrary: ms) simp_all

lemma nth_fold_dispose_other: "i \<notin> set ds \<Longrightarrow> fold dispose ds ms ! i = ms ! i"
  by (induction ds arbitrary: ms) (simp_all add: nth_dispose_other)

lemma fold_dispose_keeps [simp]:
  "mat_color (fold dispose ds ms ! i) = mat_color (ms ! i)"
  "mat_class (fold dispose ds ms ! i) = mat_class (ms ! i)"
  by (induction ds arbitrary: ms; simp)+

lemma disposed_fold_dispose:
  "i < length ms \<Longrightarrow>
   mat_disposed (fold dispose ds ms ! i) = (mat_disposed (ms ! i) \<or> i \<in> set ds)"
  by (induction ds arbitrary: ms) (auto simp: disposed_dispose)

lemma mats_disposeRef: "mats (disposeRef r s) = fold dispose (refAddrs s r) (mats s)"
  by (cases r) simp_all

lemma cloneRef_fst:
  "fst (cloneRef c (Single a) s) = Single (length (mats s))"
  "fst (cloneRef c (Multi a) s) = Multi (length (arrays s))"
  by simp_all

lemma cloneRef_mats:
  "mats (snd (cloneRef c r s)) = mats s @ map (cloneAndColorMaterial c) (components s r)"
  by (cases r) (simp_all add: components_def comp_def)

lemma cloneRef_arrays:
  "arrays (snd (cloneRef c r s)) =
     arrays s @ (case r of Single a \<Rightarrow> []
                 | Multi a \<Rightarrow> [[length (mats s) ..< length (mats s) + length (arrays s ! a)]])"
  by (cases r) simp_all

lemma cloneRef_frame [simp]:
  "meshes (snd (cloneRef c r s)) = meshes s"
  "sceneRef (snd (cloneRef c r s)) = sceneRef s"
  "cameraRef (snd (cloneRef c r s)) = cameraRef s"
  "rendererRef (snd (cloneRef c r s)) = rendererRef s"
  "mountRef (snd (cloneRef c r s)) = mountRef s"
  "controlsRef (snd (cloneRef c r s)) = controlsRef s"
  "spotLightRef (snd (cloneRef c r s)) = spotLightRef s"
  "gltfLoaderRef (snd (cloneRef c r s)) = gltfLoaderRef s"
  "modelGroupRef (snd (cloneRef c r s)) = modelGroupRef s"
  "gltfOriginalMaterialsRef (snd (cloneRef c r s)) = gltfOriginalMaterialsRef s"
  "activeMaterialsRef (snd (cloneRef c r s)) = activeMaterialsRef s"
  "isLoading (snd (cloneRef c r s)) = isLoading s"
  "selectedPart (snd (cloneRef c r s)) = selectedPart s"
  "selectedPartColor (snd (cloneRef c r s)) = selectedPartColor s"
  by (cases r; simp)+

lemma cloneRef_not_ok: "\<not> refOk s (fst (cloneRef c r s))"
  by (cases r) simp_all

lemma refAddrs_after_clone:
  "refOk s p \<Longrightarrow> refAddrs (snd (cloneRef c r s)) p = refAddrs s p"
  by (cases p; cases r) (simp_all add: nth_append)

subsection \<open>The recolouring effect, step by step\<close>

lemma disposePrevious_frame [simp]:
  "arrays (disposePrevious u orig new s) = arrays s"
  "meshes (disposePrevious u orig new s) = meshes s"
  "sceneRef (disposePrevious u orig new s) = sceneRef s"
  "cameraRef (disposePrevious u orig new s) = cameraRef s"
  "rendererRef (disposePrevious u orig new s) = rendererRef s"
  "mountRef (disposePrevious u orig new s) = mountRef s"
  "controlsRef (disposePrevious u orig new s) = controlsRef s"
  "spotLightRef (disposePrevious u orig new s) = spotLightRef s"
  "gltfLoaderRef (disposePrevious u orig new s) = gltfLoaderRef s"
  "modelGroupRef (disposePrevious u orig new s) = modelGroupRef s"
  "gltfOriginalMaterialsRef (disposePrevious u orig new s) = gltfOriginalMaterialsRef s"
  "activeMaterialsRef (disposePrevious u orig new s) = activeMaterialsRef s"
  "isLoading (disposePrevious u orig new s) = isLoading s"
  "selectedPart (disposePrevious u orig new s) = selectedPart s"
  "selectedPartColor (disposePrevious u orig new s) = selectedPartColor s"
  by (simp_all add: disposePrevious_def split: option.splits)

lemma installMaterial_frame [simp]:
  "mats (installMaterial u new s) = mats s"
  "arrays (installMaterial u new s) = arrays s"
  "sceneRef (installMaterial u new s) = sceneRef s"
  "cameraRef (installMaterial u new s) = cameraRef s"
  "rendererRef (installMaterial u new s) = rendererRef s"
  "mountRef (installMaterial u new s) = mountRef s"
  "controlsRef (installMaterial u new s) = controlsRef s"
  "spotLightRef (installMaterial u new s) = spotLightRef s"
  "gltfLoaderRef (installMaterial u new s) = gltfLoaderRef s"
  "modelGroupRef (installMaterial u new s) = modelGroupRef s"
  "gltfOriginalMaterialsRef (installMaterial u new s) = gltfOriginalMaterialsRef s"
  "isLoading (installMaterial u new s) = isLoading s"
  "selectedPart (installMaterial u new s) = selectedPart s"
  "selectedPartColor (installMaterial u new s) = selectedPartColor s"
  by (simp_all add: installMaterial_def)

lemma applyPartColor_noop:
  "modelGroupRef s = None \<or> map_of (gltfOriginalMaterialsRef s) u = None
   \<Longrightarrow> applyPartColor (Some u) c s = s"
  by (auto simp: applyPartColor_def)

lemma applyPartColor_Some:
  assumes "modelGroupRef s = Some g" "map_of (gltfOriginalMaterialsRef s) u = Some orig"
  shows "applyPartColor (Some u) c s =
           installMaterial u (fst (cloneRef c orig s))
             (disposePrevious u orig (fst (cloneRef c orig s)) (snd (cloneRef c orig s)))"
  using assms by (simp add: applyPartColor_def split_beta)

lemma applyPartColor_frame [simp]:
  "sceneRef (applyPartColor p c s) = sceneRef s"
  "cameraRef (applyPartColor p c s) = cameraRef s"
  "rendererRef (applyPartColor p c s) = rendererRef s"
  "mountRef (applyPartColor p c s) = mountRef s"
  "controlsRef (applyPartColor p c s) = controlsRef s"
  "spotLightRef (applyPartColor p c s) = spotLightRef s"
  "gltfLoaderRef (applyPartColor p c s) = gltfLoaderRef s"
  "modelGroupRef (applyPartColor p c s) = modelGroupRef s"
  "gltfOriginalMaterialsRef (applyPartColor p c s) = gltfOriginalMaterialsRef s"
  "isLoading (applyPartColor p c s) = isLoading s"
  "selectedPart (applyPartColor p c s) = selectedPart s"
  "selectedPartColor (applyPartColor p c s) = selectedPartColor s"
  by (simp_all add: applyPartColor_def split_beta split: option.splits)

lemma applyPartColor_active:
  assumes "modelGroupRef s = Some g" "map_of (gltfOriginalMaterialsRef s) u = Some orig"
  shows "activeMaterialsRef (applyPartColor (Some u) c s)
           = AList.update u (fst (cloneRef c orig s)) (activeMaterialsRef s)"
  by (simp add: applyPartColor_Some [OF assms] installMaterial_def)

lemma applyPartColor_arrays:
  assumes "modelGroupRef s = Some g" "map_of (gltfOriginalMaterialsRef s) u = Some orig"
  shows "arrays (applyPartColor (Some u) c s) = arrays (snd (cloneRef c orig s))"
  by (simp add: applyPartColor_Some [OF assms])

lemma applyPartColor_meshes:
  assumes "modelGroupRef s = Some g" "map_of (gltfOriginalMaterialsRef s) u = Some orig"
  shows "meshes (applyPartColor (Some u) c s)
           = (case meshes s u of
                None \<Rightarrow> meshes s
              | Some m \<Rightarrow> (meshes s)(u \<mapsto> m\<lparr>mesh_material := fst (cloneRef c orig s)\<rparr>))"
  by (simp add: applyPartColor_Some [OF assms] installMaterial_def split: option.splits)

text \<open>The materials the effect disposes are those of the previous active value, when
  there is one that is not the original.\<close>

lemma applyPartColor_mats:
  assumes "modelGroupRef s = Some g" "map_of (gltfOriginalMaterialsRef s) u = Some orig"
    and "\<And>p. map_of (activeMaterialsRef s) u = Some p \<Longrightarrow> refOk s p"
  shows "mats (applyPartColor (Some u) c s)
           = fold dispose
               (case map_of (activeMaterialsRef s) u of
                  None \<Rightarrow> []
                | Some p \<Rightarrow> if p = orig then [] else refAddrs s p)
               (mats s @ map (cloneAndColorMaterial c) (components s orig))"
proof (cases "map_of (activeMaterialsRef s) u")
  case None
  then show ?thesis
    by (simp add: applyPartColor_Some [OF assms(1,2)] disposePrevious_def cloneRef_mats)
next
  case (Some p)
  with assms(3) have ok: "refOk s p" by simp
  then have "p \<noteq> fst (cloneRef c orig s)"
    using cloneRef_not_ok by metis
  with Some ok assms(2) show ?thesis
    by (simp add: applyPartColor_Some [OF assms(1,2)] disposePrevious_def cloneRef_mats
        mats_disposeRef refAddrs_after_clone)
qed


subsection \<open>The content of a recoloured part\<close>

lemma refAddrs_bound: "refOk s r \<Longrightarrow> x \<in> set (refAddrs s r) \<Longrightarrow> x < length (mats s)"
  by (cases r) (auto simp: list_all_iff)

lemma cloneAndColorMaterial_cong:
  "mat_class m = mat_class m' \<Longrightarrow> mat_color m = mat_color m'
   \<Longrightarrow> cloneAndColorMaterial c m = cloneAndColorMaterial c m'"
  by (cases m; cases m') (simp add: cloneAndColorMaterial_def)

lemma map_nth_appended: "map (\<lambda>i. (xs @ ys) ! i) [length xs ..< length xs + length ys] = ys"
  by (rule nth_equalityI) (simp_all add: nth_append)

lemma components_new:
  assumes "mts = fold dispose ds (mats s @ map (cloneAndColorMaterial c) (components s orig))"
    and "\<And>x. x \<in> set ds \<Longrightarrow> x < length (mats s)"
    and "mats s' = mts" and "arrays s' = arrays (snd (cloneRef c orig s))"
  shows "components s' (fst (cloneRef c orig s)) = map (cloneAndColorMaterial c) (components s orig)"
proof (cases orig)
  case (Single a)
  have "length (mats s) \<notin> set ds" using assms(2) by auto
  then show ?thesis
    using assms(1,3) Single by (simp add: components_def nth_fold_dispose_other)
next
  case (Multi a)
  let ?cl = "map (cloneAndColorMaterial c) (components s orig)"
  have len: "length ?cl = length (arrays s ! a)"
    using Multi by (simp add: components_def)
  have "map (\<lambda>i. mats s' ! i) [length (mats s) ..< length (mats s) + length ?cl]
          = map (\<lambda>i. (mats s @ ?cl) ! i) [length (mats s) ..< length (mats s) + length ?cl]"
  proof (rule map_cong [OF refl])
    fix i assume "i \<in> set [length (mats s) ..< length (mats s) + length ?cl]"
    then have "i \<notin> set ds" using assms(2) by fastforce
    then show "mats s' ! i = (mats s @ ?cl) ! i"
      using assms(1,3) by (simp add: nth_fold_dispose_other)
  qed
  also have "\<dots> = ?cl" by (rule map_nth_appended)
  finally show ?thesis
    using Multi assms(4) len by (simp add: components_def)
qed

lemma applyPartColor_content:
  assumes "modelGroupRef s = Some g" "map_of (gltfOriginalMaterialsRef s) u = Some orig"
    and "\<And>p. map_of (activeMaterialsRef s) u = Some p \<Longrightarrow> refOk s p"
  shows "activeContent (applyPartColor (Some u) c s) u
           = Some (map (cloneAndColorMaterial c) (components s orig))"
proof -
  let ?ds = "case map_of (activeMaterialsRef s) u of
               None \<Rightarrow> [] | Some p \<Rightarrow> if p = orig then [] else refAddrs s p"
  have ds: "x < length (mats s)" if x: "x \<in> set ?ds" for x
  proof (cases "map_of (activeMaterialsRef s) u")
    case None
    with x show ?thesis by simp
  next
    case (Some p)
    with x have "x \<in> set (refAddrs s p)" by (simp split: if_splits)
    with assms(3) [OF Some] show ?thesis by (rule refAddrs_bound)
  qed
  have "components (applyPartColor (Some u) c s) (fst (cloneRef c orig s))
          = map (cloneAndColorMaterial c) (components s orig)"
    by (rule components_new [OF refl ds applyPartColor_mats [OF assms]
          applyPartColor_arrays [OF assms(1,2)]])
  then show ?thesis
    by (simp add: activeContent_def applyPartColor_active [OF assms(1,2)] update_conv')
qed

text \<open>The stores only grow, and no material changes its class or its colour.\<close>

lemma storeGrows_refl: "storeGrows s s"
  by (simp add: storeGrows_def)

lemma storeGrows_trans:
  assumes "storeGrows s t" "storeGrows t w"
  shows "storeGrows s w"
  unfolding storeGrows_def
proof (intro conjI allI impI)
  show "length (mats s) \<le> length (mats w)" "length (arrays s) \<le> length (arrays w)"
    "gltfOriginalMaterialsRef w = gltfOriginalMaterialsRef s"
    using assms by (simp_all add: storeGrows_def)
next
  fix i assume i: "i < length (mats s)"
  then have "i < length (mats t)" using assms(1) by (simp add: storeGrows_def)
  then show "mat_class (mats w ! i) = mat_class (mats s ! i)"
    "mat_color (mats w ! i) = mat_color (mats s ! i)"
    using assms i by (simp_all add: storeGrows_def)
next
  fix a assume a: "a < length (arrays s)"
  then have "a < length (arrays t)" using assms(1) by (simp add: storeGrows_def)
  then show "arrays w ! a = arrays s ! a"
    using assms a by (simp add: storeGrows_def)
qed

lemma storeGrows_cloneRef: "storeGrows s (snd (cloneRef c r s))"
  by (simp add: storeGrows_def cloneRef_mats cloneRef_arrays nth_append)

lemma storeGrows_disposeRef: "storeGrows s (disposeRef r s)"
  by (simp add: storeGrows_def mats_disposeRef)

lemma storeGrows_disposePrevious: "storeGrows s (disposePrevious u orig new s)"
  by (simp add: disposePrevious_def storeGrows_refl storeGrows_disposeRef split: option.splits)

lemma storeGrows_installMaterial: "storeGrows s (installMaterial u new s)"
  by (simp add: storeGrows_def)

lemma storeGrows_applyPartColor: "storeGrows s (applyPartColor p c s)"
proof (cases "\<exists>u g orig. p = Some u \<and> modelGroupRef s = Some g
                \<and> map_of (gltfOriginalMaterialsRef s) u = Some orig")
  case True
  then obtain u g orig where p: "p = Some u" and g: "modelGroupRef s = Some g"
    and o: "map_of (gltfOriginalMaterialsRef s) u = Some orig" by blast
  show ?thesis
    unfolding p applyPartColor_Some [OF g o]
    by (blast intro: storeGrows_trans storeGrows_cloneRef storeGrows_disposePrevious
        storeGrows_installMaterial)
next
  case False
  then have "applyPartColor p c s = s"
    by (cases p) (auto simp: applyPartColor_def split: option.splits)
  then show ?thesis by (simp add: storeGrows_refl)
qed

lemma storeGrows_refAddrs: "storeGrows s t \<Longrightarrow> refOk s r \<Longrightarrow> refAddrs t r = refAddrs s r"
  by (cases r) (simp_all add: storeGrows_def)

lemma storeGrows_refOk:
  assumes "storeGrows s t" "refOk s r"
  shows "refOk t r"
proof (cases r)
  case (Single a)
  with assms show ?thesis by (simp add: storeGrows_def)
next
  case (Multi a)
  with assms have a: "a < length (arrays s)" "arrays t ! a = arrays s ! a"
    "length (arrays s) \<le> length (arrays t)" "length (mats s) \<le> length (mats t)"
    by (simp_all add: storeGrows_def)
  have "\<forall>x \<in> set (arrays s ! a). x < length (mats s)"
    using assms(2) Multi by (simp add: list_all_iff)
  then have "\<forall>x \<in> set (arrays s ! a). x < length (mats t)"
    using a(4) by fastforce
  then show ?thesis
    using Multi a by (simp add: list_all_iff)
qed

lemma storeGrows_components:
  assumes "storeGrows s t" "refOk s r"
  shows "map mat_class (components t r) = map mat_class (components s r)"
    and "map mat_color (components t r) = map mat_color (components s r)"
proof -
  have same: "mat_class (mats t ! x) = mat_class (mats s ! x)
            \<and> mat_color (mats t ! x) = mat_color (mats s ! x)"
    if "x \<in> set (refAddrs s r)" for x
  proof -
    have "x < length (mats s)" using assms(2) that by (rule refAddrs_bound)
    then show ?thesis using assms(1) by (simp add: storeGrows_def)
  qed
  show "map mat_class (components t r) = map mat_class (components s r)"
    using same by (simp add: components_def storeGrows_refAddrs [OF assms])
  show "map mat_color (components t r) = map mat_color (components s r)"
    using same by (simp add: components_def storeGrows_refAddrs [OF assms])
qed

lemma clone_after_growth:
  assumes "storeGrows s t" "refOk s r"
  shows "map (cloneAndColorMaterial c) (components t r)
           = map (cloneAndColorMaterial c) (components s r)"
proof (rule nth_equalityI)
  show len: "length (map (cloneAndColorMaterial c) (components t r))
           = length (map (cloneAndColorMaterial c) (components s r))"
    using assms by (simp add: components_def storeGrows_refAddrs)
  fix i assume "i < length (map (cloneAndColorMaterial c) (components t r))"
  then have i: "i < length (components t r)" "i < length (components s r)"
    using len by simp_all
  have "map mat_class (components t r) ! i = map mat_class (components s r) ! i"
    by (simp only: storeGrows_components(1) [OF assms])
  then have "mat_class (components t r ! i) = mat_class (components s r ! i)"
    using i by simp
  moreover have "map mat_color (components t r) ! i = map mat_color (components s r) ! i"
    by (simp only: storeGrows_components(2) [OF assms])
  then have "mat_color (components t r ! i) = mat_color (components s r ! i)"
    using i by simp
  ultimately have "cloneAndColorMaterial c (components t r ! i)
           = cloneAndColorMaterial c (components s r ! i)"
    by (rule cloneAndColorMaterial_cong)
  then show "map (cloneAndColorMaterial c) (components t r) ! i
           = map (cloneAndColorMaterial c) (components s r) ! i"
    using i by simp
qed

lemma wellFormed_original:
  "wellFormed s \<Longrightarrow> map_of (gltfOriginalMaterialsRef s) u = Some r \<Longrightarrow> refOk s r"
  by (auto simp: wellFormed_def list_all_iff dest: map_of_SomeD)

lemma wellFormed_active:
  "wellFormed s \<Longrightarrow> map_of (activeMaterialsRef s) u = Some r \<Longrightarrow> refOk s r"
  by (auto simp: wellFormed_def list_all_iff dest: map_of_SomeD)

lemma refOk_new:
  assumes "modelGroupRef s = Some g" "map_of (gltfOriginalMaterialsRef s) u = Some orig"
  shows "refOk (applyPartColor (Some u) c s) (fst (cloneRef c orig s))"
proof -
  have len: "length (mats (applyPartColor (Some u) c s))
               = length (mats s) + length (refAddrs s orig)"
    by (simp add: applyPartColor_Some [OF assms] disposePrevious_def mats_disposeRef
        cloneRef_mats components_def split: option.splits)
  show ?thesis
    using len by (cases orig) (simp_all add: applyPartColor_arrays [OF assms] list_all_iff)
qed

text \<open>Recolouring a part twice gives what the second recolouring alone gives.\<close>

lemma recolour_twice:
  assumes "wellFormed s"
  shows "activeContent (applyPartColor (Some u) c' (applyPartColor (Some u) c s)) u
           = activeContent (applyPartColor (Some u) c' s) u"
proof (cases "\<exists>g orig. modelGroupRef s = Some g
                \<and> map_of (gltfOriginalMaterialsRef s) u = Some orig")
  case False
  then have "applyPartColor (Some u) c s = s"
    by (auto simp: applyPartColor_def split: option.splits)
  then show ?thesis by simp
next
  case True
  then obtain g orig where g: "modelGroupRef s = Some g"
    and o: "map_of (gltfOriginalMaterialsRef s) u = Some orig" by blast
  let ?t = "applyPartColor (Some u) c s"
  have ok: "refOk s orig" using assms o by (rule wellFormed_original)
  have pok: "\<And>p. map_of (activeMaterialsRef s) u = Some p \<Longrightarrow> refOk s p"
    using assms by (rule wellFormed_active)
  have g': "modelGroupRef ?t = Some g" and o': "map_of (gltfOriginalMaterialsRef ?t) u = Some orig"
    using g o by simp_all
  have pok': "\<And>p. map_of (activeMaterialsRef ?t) u = Some p \<Longrightarrow> refOk ?t p"
    using refOk_new [OF g o] by (simp add: applyPartColor_active [OF g o] update_conv')
  have "activeContent (applyPartColor (Some u) c' ?t) u
          = Some (map (cloneAndColorMaterial c') (components ?t orig))"
    by (rule applyPartColor_content [OF g' o' pok'])
  also have "\<dots> = Some (map (cloneAndColorMaterial c') (components s orig))"
    using clone_after_growth [OF storeGrows_applyPartColor ok] by simp
  also have "\<dots> = activeContent (applyPartColor (Some u) c' s) u"
    by (rule applyPartColor_content [OF g o pok, symmetric])
  finally show ?thesis .
qed


subsection \<open>The invariant\<close>

lemma refOk_cong:
  "length (mats t) = length (mats s) \<Longrightarrow> arrays t = arrays s \<Longrightarrow> refOk t r = refOk s r"
  by (cases r) simp_all

lemma refAddrs_cong: "arrays t = arrays s \<Longrightarrow> refAddrs t r = refAddrs s r"
  by (cases r) simp_all

lemma sessionInvariant_cong:
  assumes "mats t = mats s" "arrays t = arrays s"
    and "gltfOriginalMaterialsRef t = gltfOriginalMaterialsRef s"
    and "activeMaterialsRef t = activeMaterialsRef s"
  shows "sessionInvariant t = sessionInvariant s"
proof -
  have 1: "refOk t = refOk s"
  proof
    fix r show "refOk t r = refOk s r" by (rule refOk_cong) (simp_all add: assms)
  qed
  have 2: "refAddrs t = refAddrs s"
  proof
    fix r show "refAddrs t r = refAddrs s r" using assms(2) by (rule refAddrs_cong)
  qed
  show ?thesis
    unfolding sessionInvariant_def wellFormed_def isCloneOf_def components_def originalAddrs_def
      1 2 assms ..
qed

lemma sessionInvariant_empty:
  "gltfOriginalMaterialsRef s = [] \<Longrightarrow> activeMaterialsRef s = [] \<Longrightarrow> sessionInvariant s"
  by (simp add: sessionInvariant_def wellFormed_def)

lemma sessionInvariant_wellFormed: "sessionInvariant s \<Longrightarrow> wellFormed s"
  by (simp add: sessionInvariant_def)

lemma sessionInvariant_entry:
  assumes "sessionInvariant s" "(k, a) \<in> set (activeMaterialsRef s)"
  shows "\<exists>orig. map_of (gltfOriginalMaterialsRef s) k = Some orig
           \<and> (a = orig \<or> isCloneOf s a orig)"
proof -
  have "case map_of (gltfOriginalMaterialsRef s) k of
          None \<Rightarrow> False | Some orig \<Rightarrow> a = orig \<or> isCloneOf s a orig"
    using assms by (auto simp: sessionInvariant_def list_all_iff)
  then show ?thesis by (cases "map_of (gltfOriginalMaterialsRef s) k") simp_all
qed

lemma originalAddrs_bound:
  assumes "wellFormed s" "x \<in> set (originalAddrs s)"
  shows "x < length (mats s)"
proof -
  from assms(2) obtain k r where kr: "(k, r) \<in> set (gltfOriginalMaterialsRef s)"
    and x: "x \<in> set (refAddrs s r)"
    by (auto simp: originalAddrs_def)
  from assms(1) kr have "refOk s r" by (auto simp: wellFormed_def list_all_iff)
  then show ?thesis using x by (rule refAddrs_bound)
qed

lemma storeGrows_originalAddrs:
  assumes "storeGrows s t" "wellFormed s"
  shows "originalAddrs t = originalAddrs s"
proof -
  have o: "gltfOriginalMaterialsRef t = gltfOriginalMaterialsRef s"
    using assms(1) by (simp add: storeGrows_def)
  have "map (\<lambda>(u, r). refAddrs t r) (gltfOriginalMaterialsRef s)
          = map (\<lambda>(u, r). refAddrs s r) (gltfOriginalMaterialsRef s)"
  proof (rule map_cong [OF refl])
    fix x assume x: "x \<in> set (gltfOriginalMaterialsRef s)"
    obtain k r where kr: "x = (k, r)" by (cases x)
    with x assms(2) have "refOk s r" by (auto simp: wellFormed_def list_all_iff)
    with assms(1) have "refAddrs t r = refAddrs s r" by (rule storeGrows_refAddrs)
    with kr show "(case x of (u, r) \<Rightarrow> refAddrs t r) = (case x of (u, r) \<Rightarrow> refAddrs s r)"
      by simp
  qed
  then show ?thesis unfolding originalAddrs_def o by (rule arg_cong)
qed

lemma derivedFrom_cong:
  assumes "mat_class a' = mat_class a" "mat_color a' = mat_color a"
    and "mat_class b' = mat_class b" "mat_color b' = mat_color b"
  shows "derivedFrom a' b' = derivedFrom a b"
  using assms by (simp add: derivedFrom_def)

lemma derivedFrom_clone: "derivedFrom (cloneAndColorMaterial c m) m"
  by (cases "mat_class m") (simp_all add: derivedFrom_def cloneAndColorMaterial_def Let_def)

lemma list_all2_derivedFrom_cong:
  assumes "map mat_class xs' = map mat_class xs" "map mat_color xs' = map mat_color xs"
    and "map mat_class ys' = map mat_class ys" "map mat_color ys' = map mat_color ys"
    and "list_all2 derivedFrom xs ys"
  shows "list_all2 derivedFrom xs' ys'"
proof -
  have lx: "length xs' = length xs" using assms(1) by (rule map_eq_imp_length_eq)
  have ly: "length ys' = length ys" using assms(3) by (rule map_eq_imp_length_eq)
  have l: "length xs = length ys" using assms(5) by (rule list_all2_lengthD)
  show ?thesis
  proof (rule list_all2_all_nthI)
    show "length xs' = length ys'" using lx ly l by simp
    fix n assume n: "n < length xs'"
    then have n': "n < length xs" "n < length ys" "n < length ys'" using lx ly l by simp_all
    have "map mat_class xs' ! n = map mat_class xs ! n" "map mat_color xs' ! n = map mat_color xs ! n"
      "map mat_class ys' ! n = map mat_class ys ! n" "map mat_color ys' ! n = map mat_color ys ! n"
      by (simp_all only: assms(1-4))
    then have "derivedFrom (xs' ! n) (ys' ! n) = derivedFrom (xs ! n) (ys ! n)"
      using n n' by (intro derivedFrom_cong) simp_all
    moreover have "derivedFrom (xs ! n) (ys ! n)"
      using assms(5) n'(1) by (rule list_all2_nthD)
    ultimately show "derivedFrom (xs' ! n) (ys' ! n)" by simp
  qed
qed

lemma list_all2_derivedFrom_clones: "list_all2 derivedFrom (map (cloneAndColorMaterial c) xs) xs"
  by (induction xs) (simp_all add: derivedFrom_clone)

lemma storeGrows_isCloneOf:
  assumes "storeGrows s t" "wellFormed s" "refOk s a" "refOk s orig" "isCloneOf s a orig"
  shows "isCloneOf t a orig"
proof -
  have "list_all2 derivedFrom (components t a) (components t orig)"
  proof (rule list_all2_derivedFrom_cong)
    show "list_all2 derivedFrom (components s a) (components s orig)"
      using assms(5) by (simp add: isCloneOf_def)
  qed (rule storeGrows_components [OF assms(1,3)] storeGrows_components [OF assms(1,4)])+
  moreover have "refAddrs t a = refAddrs s a" using assms(1,3) by (rule storeGrows_refAddrs)
  moreover have "originalAddrs t = originalAddrs s" using assms(1,2) by (rule storeGrows_originalAddrs)
  ultimately show ?thesis using assms(5) by (simp add: isCloneOf_def)
qed

lemma set_update_subset: "set (AList.update k v al) \<subseteq> insert (k, v) (set al)"
  by (induction al) auto

lemma components_of_new:
  assumes "modelGroupRef s = Some g" "map_of (gltfOriginalMaterialsRef s) u = Some orig"
    and "\<And>p. map_of (activeMaterialsRef s) u = Some p \<Longrightarrow> refOk s p"
  shows "components (applyPartColor (Some u) c s) (fst (cloneRef c orig s))
           = map (cloneAndColorMaterial c) (components s orig)"
  using applyPartColor_content [OF assms]
  by (simp add: activeContent_def applyPartColor_active [OF assms(1,2)] update_conv')

lemma refAddrs_of_new:
  assumes "modelGroupRef s = Some g" "map_of (gltfOriginalMaterialsRef s) u = Some orig"
    and "x \<in> set (refAddrs (applyPartColor (Some u) c s) (fst (cloneRef c orig s)))"
  shows "length (mats s) \<le> x"
  using assms(3) by (cases orig) (simp_all add: applyPartColor_arrays [OF assms(1,2)])

lemma new_isCloneOf:
  assumes "wellFormed s" "modelGroupRef s = Some g"
    and "map_of (gltfOriginalMaterialsRef s) u = Some orig"
  shows "isCloneOf (applyPartColor (Some u) c s) (fst (cloneRef c orig s)) orig"
proof -
  let ?t = "applyPartColor (Some u) c s" and ?new = "fst (cloneRef c orig s)"
  have gr: "storeGrows s ?t" by (rule storeGrows_applyPartColor)
  have ok: "refOk s orig" using assms(1,3) by (rule wellFormed_original)
  have pok: "\<And>p. map_of (activeMaterialsRef s) u = Some p \<Longrightarrow> refOk s p"
    using assms(1) by (rule wellFormed_active)
  have 1: "?new \<noteq> orig" using ok cloneRef_not_ok by metis
  have 2: "sameShape ?new orig" by (cases orig) simp_all
  have "list_all2 derivedFrom (map (cloneAndColorMaterial c) (components s orig)) (components s orig)"
    by (rule list_all2_derivedFrom_clones)
  then have 3: "list_all2 derivedFrom (components ?t ?new) (components ?t orig)"
  proof (rule list_all2_derivedFrom_cong [rotated -1])
    show "map mat_class (components ?t ?new)
            = map mat_class (map (cloneAndColorMaterial c) (components s orig))"
      "map mat_color (components ?t ?new)
            = map mat_color (map (cloneAndColorMaterial c) (components s orig))"
      by (simp_all only: components_of_new [OF assms(2,3) pok])
  qed (rule storeGrows_components [OF gr ok])+
  have "x \<notin> set (originalAddrs ?t)" if "x \<in> set (refAddrs ?t ?new)" for x
  proof
    assume "x \<in> set (originalAddrs ?t)"
    then have "x \<in> set (originalAddrs s)" by (simp add: storeGrows_originalAddrs [OF gr assms(1)])
    with assms(1) have "x < length (mats s)" by (rule originalAddrs_bound)
    moreover have "length (mats s) \<le> x" using assms(2,3) that by (rule refAddrs_of_new)
    ultimately show False by simp
  qed
  then have 4: "list_all (\<lambda>a. a \<notin> set (originalAddrs ?t)) (refAddrs ?t ?new)"
    by (simp add: list_all_iff)
  from 1 2 3 4 show ?thesis by (simp add: isCloneOf_def)
qed

lemma sessionInvariant_applyPartColor:
  assumes "sessionInvariant s"
  shows "sessionInvariant (applyPartColor p c s)"
proof (cases "\<exists>u g orig. p = Some u \<and> modelGroupRef s = Some g
                \<and> map_of (gltfOriginalMaterialsRef s) u = Some orig")
  case False
  then have "applyPartColor p c s = s"
    by (cases p) (auto simp: applyPartColor_def split: option.splits)
  with assms show ?thesis by simp
next
  case True
  then obtain u g orig where p: "p = Some u" and g: "modelGroupRef s = Some g"
    and o: "map_of (gltfOriginalMaterialsRef s) u = Some orig" by blast
  let ?t = "applyPartColor (Some u) c s" and ?new = "fst (cloneRef c orig s)"
  have wf: "wellFormed s" using assms by (rule sessionInvariant_wellFormed)
  have gr: "storeGrows s ?t" by (rule storeGrows_applyPartColor)
  have act: "activeMaterialsRef ?t = AList.update u ?new (activeMaterialsRef s)"
    using g o by (rule applyPartColor_active)
  have org: "gltfOriginalMaterialsRef ?t = gltfOriginalMaterialsRef s" by simp
  have new_ok: "refOk ?t ?new" using g o by (rule refOk_new)
  have old_ok: "refOk ?t r" if "(k, r) \<in> set (activeMaterialsRef s)" for k r
  proof -
    from wf that have "refOk s r" by (auto simp: wellFormed_def list_all_iff)
    with gr show ?thesis by (rule storeGrows_refOk)
  qed
  have orig_ok: "refOk ?t r" if "(k, r) \<in> set (gltfOriginalMaterialsRef s)" for k r
  proof -
    from wf that have "refOk s r" by (auto simp: wellFormed_def list_all_iff)
    with gr show ?thesis by (rule storeGrows_refOk)
  qed
  have entries: "(k, a) = (u, ?new) \<or> (k, a) \<in> set (activeMaterialsRef s)"
    if "(k, a) \<in> set (activeMaterialsRef ?t)" for k a
    using that set_update_subset [of u ?new "activeMaterialsRef s"] by (auto simp: act)
  have wf': "wellFormed ?t"
    unfolding wellFormed_def list_all_iff
  proof (intro conjI ballI)
    fix x assume x: "x \<in> set (gltfOriginalMaterialsRef ?t)"
    obtain k r where kr: "x = (k, r)" by (cases x)
    with x have "refOk ?t r" using orig_ok [of k r] by simp
    with kr show "case x of (u, r) \<Rightarrow> refOk ?t r" by simp
  next
    fix x assume x: "x \<in> set (activeMaterialsRef ?t)"
    obtain k a where ka: "x = (k, a)" by (cases x)
    with x entries have "(k, a) = (u, ?new) \<or> (k, a) \<in> set (activeMaterialsRef s)" by simp
    then have "refOk ?t a" using new_ok old_ok by auto
    with ka show "case x of (u, r) \<Rightarrow> refOk ?t r" by simp
  qed
  have dist: "distinct (map fst (activeMaterialsRef ?t))"
    using assms by (simp add: act sessionInvariant_def distinct_update)
  have ent: "case map_of (gltfOriginalMaterialsRef ?t) k of
               None \<Rightarrow> False | Some orig \<Rightarrow> a = orig \<or> isCloneOf ?t a orig"
    if ka: "(k, a) \<in> set (activeMaterialsRef ?t)" for k a
  proof -
    from entries [OF ka] show ?thesis
    proof
      assume "(k, a) = (u, ?new)"
      then show ?thesis
        using new_isCloneOf [OF wf g o, of c] o by simp
    next
      assume old: "(k, a) \<in> set (activeMaterialsRef s)"
      from sessionInvariant_entry [OF assms old] obtain o' where
        o': "map_of (gltfOriginalMaterialsRef s) k = Some o'" and c: "a = o' \<or> isCloneOf s a o'"
        by blast
      have "refOk s a" using wf old by (auto simp: wellFormed_def list_all_iff)
      moreover have "refOk s o'" using wf o' by (rule wellFormed_original)
      ultimately have "a = o' \<or> isCloneOf ?t a o'"
        using c storeGrows_isCloneOf [OF gr wf] by blast
      with o' show ?thesis by simp
    qed
  qed
  have "list_all (\<lambda>(u, act). case map_of (gltfOriginalMaterialsRef ?t) u of
                         None \<Rightarrow> False
                       | Some orig \<Rightarrow> act = orig \<or> isCloneOf ?t act orig)
          (activeMaterialsRef ?t)"
    unfolding list_all_iff
  proof
    fix x assume x: "x \<in> set (activeMaterialsRef ?t)"
    obtain k a where ka: "x = (k, a)" by (cases x)
    with x ent [of k a] show "case x of (u, act) \<Rightarrow>
        (case map_of (gltfOriginalMaterialsRef ?t) u of
           None \<Rightarrow> False | Some orig \<Rightarrow> act = orig \<or> isCloneOf ?t act orig)"
      by simp
  qed
  with wf' dist show ?thesis
    unfolding p sessionInvariant_def by simp
qed


subsection \<open>The tables after a load\<close>

lemma registerMeshes_same:
  "gltfOriginalMaterialsRef s = activeMaterialsRef s
   \<Longrightarrow> gltfOriginalMaterialsRef (registerMeshes us s) = activeMaterialsRef (registerMeshes us s)"
  by (induction us s rule: registerMeshes.induct) (simp_all split: option.splits)

lemma registerMeshes_distinct:
  "distinct (map fst (activeMaterialsRef s))
   \<Longrightarrow> distinct (map fst (activeMaterialsRef (registerMeshes us s)))"
  by (induction us s rule: registerMeshes.induct) (simp_all add: distinct_update split: option.splits)

text \<open>After the traversal, the entry of a uuid it has visited and found to be a mesh is
  the material of that mesh; all other entries are as before.\<close>

lemma registerMeshes_map_of:
  "map_of (activeMaterialsRef (registerMeshes us s)) k
     = (case (if k \<in> set us then meshes s k else None) of
          Some m \<Rightarrow> Some (mesh_material m)
        | None \<Rightarrow> map_of (activeMaterialsRef s) k)"
proof (induction us arbitrary: s)
  case Nil
  then show ?case by simp
next
  case (Cons u us)
  show ?case
  proof (cases "meshes s u")
    case None
    then have r: "registerMeshes (u # us) s = registerMeshes us s" by simp
    show ?thesis
      unfolding r Cons.IH [of s] using None by (cases "k = u") simp_all
  next
    case (Some child)
    let ?s1 = "s\<lparr>meshes := (meshes s)(u \<mapsto> child\<lparr>castShadow := True, receiveShadow := True\<rparr>),
              gltfOriginalMaterialsRef :=
                AList.update u (mesh_material child) (gltfOriginalMaterialsRef s),
              activeMaterialsRef :=
                AList.update u (mesh_material child) (activeMaterialsRef s)\<rparr>"
    have r: "registerMeshes (u # us) s = registerMeshes us ?s1" using Some by simp
    show ?thesis
      unfolding r Cons.IH [of ?s1] using Some
      by (cases "k = u") (simp_all add: update_conv' split: option.splits)
  qed
qed

lemma length_mats_disposeClones [simp]:
  "length (mats (disposeClones al s)) = length (mats s)"
  by (induction al s rule: disposeClones.induct) (simp_all add: mats_disposeRef)

lemma disposeGeometries_material:
  "map_option mesh_material (disposeGeometries us ms k) = map_option mesh_material (ms k)"
  by (induction us ms rule: disposeGeometries.induct) (simp_all split: option.splits)

lemma removeModel_material:
  "map_option mesh_material (meshes (removeModel s) k) = map_option mesh_material (meshes s k)"
  by (simp add: removeModel_def disposeGeometries_material split: option.splits)

text \<open>The session in which the success callback of the loader starts.\<close>

lemma tornDown_fields:
  fixes s :: session
  defines "t \<equiv> (removeModel ((disposeClones (activeMaterialsRef s) (s\<lparr>isLoading := True\<rparr>))
          \<lparr>gltfOriginalMaterialsRef := [], activeMaterialsRef := []\<rparr>))
       \<lparr>modelGroupRef := None\<rparr>"
  shows "length (mats t) = length (mats s)" "arrays t = arrays s"
    "gltfOriginalMaterialsRef t = []" "activeMaterialsRef t = []"
    "map_option mesh_material (meshes t k) = map_option mesh_material (meshes s k)"
  by (simp_all add: t_def removeModel_material)

lemma onParsed_tables:
  "mats (snd (onParsed g t)) = mats t @ gltf_materials g"
  "arrays (snd (onParsed g t)) = arrays t @ gltf_arrays g"
  "gltfOriginalMaterialsRef (snd (onParsed g t))
     = gltfOriginalMaterialsRef (registerMeshes (children (gltf_scene g))
         ((allocate g t)\<lparr>modelGroupRef := Some (gltf_scene g)\<rparr>))"
  "activeMaterialsRef (snd (onParsed g t))
     = activeMaterialsRef (registerMeshes (children (gltf_scene g))
         ((allocate g t)\<lparr>modelGroupRef := Some (gltf_scene g)\<rparr>))"
  by (simp_all add: onParsed_def Let_def allocate_def)

lemma onParsed_invariant:
  assumes "gltfOriginalMaterialsRef t = []" "activeMaterialsRef t = []"
    and ok: "\<And>u m. u \<in> set (children (gltf_scene g)) \<Longrightarrow> meshes (allocate g t) u = Some m
              \<Longrightarrow> refOk (allocate g t) (mesh_material m)"
  shows "sessionInvariant (snd (onParsed g t))"
    and "activeMaterialsRef (snd (onParsed g t)) = gltfOriginalMaterialsRef (snd (onParsed g t))"
proof -
  let ?t1 = "(allocate g t)\<lparr>modelGroupRef := Some (gltf_scene g)\<rparr>"
  let ?r = "registerMeshes (children (gltf_scene g)) ?t1"
  let ?s = "snd (onParsed g t)"
  have e: "gltfOriginalMaterialsRef ?t1 = []" "activeMaterialsRef ?t1 = []"
    using assms(1,2) by (simp_all add: allocate_def)
  have same: "gltfOriginalMaterialsRef ?r = activeMaterialsRef ?r"
    by (rule registerMeshes_same) (simp add: e)
  then show eq: "activeMaterialsRef ?s = gltfOriginalMaterialsRef ?s"
    by (simp add: onParsed_tables)
  have dist: "distinct (map fst (activeMaterialsRef ?r))"
    by (rule registerMeshes_distinct) (simp add: e)
  have entry: "map_of (activeMaterialsRef ?r) k = Some a \<and> refOk ?r a"
    if "(k, a) \<in> set (activeMaterialsRef ?r)" for k a
  proof -
    have m: "map_of (activeMaterialsRef ?r) k = Some a"
      using dist that by (rule map_of_is_SomeI)
    then obtain msh where "k \<in> set (children (gltf_scene g))" "meshes ?t1 k = Some msh"
      "mesh_material msh = a"
      by (auto simp: registerMeshes_map_of e split: if_splits option.splits)
    then have "refOk (allocate g t) a" using ok [of k msh] by simp
    then have "refOk ?r a"
      by (simp add: refOk_cong [of ?r "allocate g t"])
    with m show ?thesis by simp
  qed
  have "sessionInvariant ?r"
    unfolding sessionInvariant_def wellFormed_def list_all_iff same
  proof (intro conjI ballI)
    show "distinct (map fst (activeMaterialsRef ?r))" by (rule dist)
  next
    fix x assume x: "x \<in> set (activeMaterialsRef ?r)"
    obtain k a where ka: "x = (k, a)" by (cases x)
    with x entry [of k a] show "case x of (u, r) \<Rightarrow> refOk ?r r" by simp
    from ka x entry [of k a] show "case x of (u, r) \<Rightarrow> refOk ?r r" by simp
    from ka x entry [of k a] show "case x of (u, act) \<Rightarrow>
        (case map_of (activeMaterialsRef ?r) u of
           None \<Rightarrow> False | Some orig \<Rightarrow> act = orig \<or> isCloneOf ?r act orig)"
      by simp
  qed
  moreover have "sessionInvariant ?s = sessionInvariant ?r"
    by (rule sessionInvariant_cong) (simp_all add: onParsed_tables allocate_def)
  ultimately show "sessionInvariant ?s" by simp
qed

lemma load_Decoded_invariant:
  assumes "gltfLoaderRef s" "sceneRef s" "gltfOk s g"
  shows "sessionInvariant (snd (load (ReadDone (Some (Decoded g))) s))"
    and "activeMaterialsRef (snd (load (ReadDone (Some (Decoded g))) s))
           = gltfOriginalMaterialsRef (snd (load (ReadDone (Some (Decoded g))) s))"
proof -
  define t where "t = (removeModel ((disposeClones (activeMaterialsRef s) (s\<lparr>isLoading := True\<rparr>))
          \<lparr>gltfOriginalMaterialsRef := [], activeMaterialsRef := []\<rparr>))
       \<lparr>modelGroupRef := None\<rparr>"
  have f: "length (mats t) = length (mats s)" "arrays t = arrays s"
    "gltfOriginalMaterialsRef t = []" "activeMaterialsRef t = []"
    "\<And>k. map_option mesh_material (meshes t k) = map_option mesh_material (meshes s k)"
    unfolding t_def by (rule tornDown_fields)+
  have l: "load (ReadDone (Some (Decoded g))) s = onParsed g t"
    unfolding t_def using assms(1,2) by (rule load_Decoded)
  have ok: "refOk (allocate g t) (mesh_material m)"
    if u: "u \<in> set (children (gltf_scene g))" and m: "meshes (allocate g t) u = Some m" for u m
  proof -
    have "map_option mesh_material (meshes (allocate g s) u)
            = map_option mesh_material (meshes (allocate g t) u)"
      using f(5) [of u] by (simp add: allocate_def map_add_def split: option.splits)
    with m obtain m' where m': "meshes (allocate g s) u = Some m'"
      "mesh_material m' = mesh_material m" by auto
    with assms(3) u have "refOk (allocate g s) (mesh_material m)"
      by (auto simp: gltfOk_def list_all_iff)
    moreover have "refOk (allocate g t) (mesh_material m) = refOk (allocate g s) (mesh_material m)"
      by (rule refOk_cong) (simp_all add: allocate_def f)
    ultimately show ?thesis by simp
  qed
  show "sessionInvariant (snd (load (ReadDone (Some (Decoded g))) s))"
    unfolding l using f(3,4) ok by (rule onParsed_invariant(1))
  show "activeMaterialsRef (snd (load (ReadDone (Some (Decoded g))) s))
           = gltfOriginalMaterialsRef (snd (load (ReadDone (Some (Decoded g))) s))"
    unfolding l using f(3,4) ok by (rule onParsed_invariant(2))
qed

lemma load_Decoded_entry:
  assumes "gltfLoaderRef s" "sceneRef s"
    and "u \<in> set (children (gltf_scene g))" "meshes (allocate g s) u = Some m"
  shows "map_of (activeMaterialsRef (snd (load (ReadDone (Some (Decoded g))) s))) u
           = Some (mesh_material m)"
proof -
  define t where "t = (removeModel ((disposeClones (activeMaterialsRef s) (s\<lparr>isLoading := True\<rparr>))
          \<lparr>gltfOriginalMaterialsRef := [], activeMaterialsRef := []\<rparr>))
       \<lparr>modelGroupRef := None\<rparr>"
  have f: "\<And>k. map_option mesh_material (meshes t k) = map_option mesh_material (meshes s k)"
    unfolding t_def by (rule tornDown_fields)
  have l: "load (ReadDone (Some (Decoded g))) s = onParsed g t"
    unfolding t_def using assms(1,2) by (rule load_Decoded)
  have "map_option mesh_material (meshes (allocate g t) u)
          = map_option mesh_material (meshes (allocate g s) u)"
    using f [of u] by (simp add: allocate_def map_add_def split: option.splits)
  with assms(4) obtain m' where m': "meshes (allocate g t) u = Some m'"
    "mesh_material m' = mesh_material m" by auto
  then show ?thesis
    unfolding l using assms(3)
    by (simp add: onParsed_tables registerMeshes_map_of)
qed

lemma load_other_invariant:
  assumes "sessionInvariant s" "\<And>g. payload \<noteq> ReadDone (Some (Decoded g))"
  shows "sessionInvariant (snd (load payload s))"
proof (cases "gltfLoaderRef s \<and> sceneRef s
    \<and> (payload = ReadDone (Some Malformed) \<or> payload = ReadDone (Some Throws))")
  case True
  then show ?thesis
    by (auto simp: sessionInvariant_empty load_Malformed_fields load_Throws_fields)
next
  case False
  have "sessionInvariant (snd (load payload s)) = sessionInvariant s"
  proof (rule sessionInvariant_cong)
    have "mats (snd (load payload s)) = mats s \<and> arrays (snd (load payload s)) = arrays s
      \<and> gltfOriginalMaterialsRef (snd (load payload s)) = gltfOriginalMaterialsRef s
      \<and> activeMaterialsRef (snd (load payload s)) = activeMaterialsRef s"
    proof (cases payload)
      case ReadFailed
      then show ?thesis by (simp add: load_def loadModelEffect_def Let_def)
    next
      case (ReadDone result)
      show ?thesis
      proof (cases result)
        case None
        with ReadDone show ?thesis
          by (simp add: load_def loadModelEffect_def readerOnload_def Let_def)
      next
        case (Some d)
        with ReadDone assms(2) have d: "d = Malformed \<or> d = Throws" by (cases d) simp_all
        with Some ReadDone False have "\<not> (gltfLoaderRef s \<and> sceneRef s)" by auto
        with Some ReadDone show ?thesis
          by (auto simp: load_def loadModelEffect_def)
      qed
    qed
    then show "mats (snd (load payload s)) = mats s" "arrays (snd (load payload s)) = arrays s"
      "gltfOriginalMaterialsRef (snd (load payload s)) = gltfOriginalMaterialsRef s"
      "activeMaterialsRef (snd (load payload s)) = activeMaterialsRef s"
      by simp_all
  qed
  with assms(1) show ?thesis by simp
qed

lemma unload_invariant:
  assumes "sessionInvariant s"
  shows "sessionInvariant (unload s)"
proof (cases "gltfLoaderRef s \<and> sceneRef s")
  case True
  then show ?thesis
    by (simp add: unload_ready sessionInvariant_empty clearModel_fields)
next
  case False
  then have "unload s = s" by (auto simp: unload_def loadModelEffect_def)
  with assms show ?thesis by simp
qed

lemma selectPart_invariant:
  assumes "sessionInvariant s"
  shows "sessionInvariant (selectPart p s)"
proof -
  have "sessionInvariant (handlePartSelect p s) = sessionInvariant s"
    by (rule sessionInvariant_cong)
       (simp_all add: handlePartSelect_def Let_def split: option.splits)
  with assms show ?thesis
    by (simp add: selectPart_def Let_def sessionInvariant_applyPartColor)
qed

lemma pickPartColor_invariant:
  assumes "sessionInvariant s"
  shows "sessionInvariant (pickPartColor style s)"
proof -
  have "sessionInvariant (s\<lparr>selectedPartColor := style\<rparr>) = sessionInvariant s"
    by (rule sessionInvariant_cong) simp_all
  with assms show ?thesis
    by (simp add: pickPartColor_def Let_def sessionInvariant_applyPartColor)
qed

lemma reapplyActive_frame [simp]:
  "mats (reapplyActive us s) = mats s"
  "arrays (reapplyActive us s) = arrays s"
  "gltfOriginalMaterialsRef (reapplyActive us s) = gltfOriginalMaterialsRef s"
  "activeMaterialsRef (reapplyActive us s) = activeMaterialsRef s"
  by (induction us s rule: reapplyActive.induct; simp split: option.splits)+

lemma exports_invariant:
  assumes "sessionInvariant s"
  shows "sessionInvariant (snd (exportToImage k s))"
    and "sessionInvariant (snd (exportToGLB b s))"
proof -
  have "sessionInvariant (snd (exportToImage k s)) = sessionInvariant s"
    by (rule sessionInvariant_cong)
       (simp_all add: exportToImage_def Let_def split: option.splits)
  with assms show "sessionInvariant (snd (exportToImage k s))" by simp
  have "sessionInvariant (snd (exportToGLB b s)) = sessionInvariant s"
    by (rule sessionInvariant_cong)
       (simp_all add: exportToGLB_def Let_def split: option.splits)
  with assms show "sessionInvariant (snd (exportToGLB b s))" by simp
qed


subsection \<open>Selecting a part\<close>

lemma firstColor_find:
  "firstColor ms = (case List.find (\<lambda>m. mat_color m \<noteq> None) ms of
                      Some m \<Rightarrow> CHR ''#'' # getHexString (the (mat_color m))
                    | None \<Rightarrow> defaultPartColor)"
  by (induction ms) (auto split: option.splits)

lemma colorToSet_liveColor: "colorToSet s r = liveColor s r"
proof (cases r)
  case (Single a)
  then show ?thesis
    by (simp add: liveColor_def components_def defaultPartColor_def split: option.splits)
next
  case (Multi a)
  then show ?thesis
    by (cases "arrays s ! a = []")
       (simp_all add: liveColor_def components_def firstColor_find defaultPartColor_def
          split: option.splits)
qed

text \<open>The colour the effect reads from the string of the live colour.\<close>

lemma threeColor_liveColor: "threeColor t (liveColor s r) = liveRGB s r"
proof (cases "List.find (\<lambda>m. mat_color m \<noteq> None) (components s r)")
  case None
  then show ?thesis
    using threeColor_default [of t] by (simp add: liveColor_def liveRGB_def defaultPartColor_def)
next
  case (Some m)
  then show ?thesis
    by (simp add: liveColor_def liveRGB_def threeColor_hex)
qed

lemma handlePartSelect_frame [simp]:
  "mats (handlePartSelect p s) = mats s"
  "arrays (handlePartSelect p s) = arrays s"
  "meshes (handlePartSelect p s) = meshes s"
  "modelGroupRef (handlePartSelect p s) = modelGroupRef s"
  "gltfOriginalMaterialsRef (handlePartSelect p s) = gltfOriginalMaterialsRef s"
  "activeMaterialsRef (handlePartSelect p s) = activeMaterialsRef s"
  "selectedPart (handlePartSelect p s) = p"
  "styleColor (handlePartSelect p s) = styleColor s"
  by (simp_all add: handlePartSelect_def Let_def split: option.splits)

lemma threeColor_handlePartSelect [simp]:
  "threeColor (handlePartSelect p s) style = threeColor s style"
  by (rule threeColor_cong) simp

lemma handlePartSelect_color:
  "meshes s u = Some m
   \<Longrightarrow> selectedPartColor (handlePartSelect (Some u) s) = liveColor s (mesh_material m)"
proof -
  assume m: "meshes s u = Some m"
  have "colorToSet (s\<lparr>selectedPart := Some u\<rparr>) (mesh_material m) = colorToSet s (mesh_material m)"
    by (cases "mesh_material m") simp_all
  with m show ?thesis
    by (simp add: handlePartSelect_def Let_def colorToSet_liveColor)
qed

lemma handlePartSelect_color_kept:
  "p = None \<or> (\<exists>u. p = Some u \<and> meshes s u = None)
   \<Longrightarrow> selectedPartColor (handlePartSelect p s) = selectedPartColor s"
  by (auto simp: handlePartSelect_def Let_def)

lemma selectPart_frame [simp]:
  "selectedPart (selectPart p s) = p"
  "selectedPartColor (selectPart p s) = selectedPartColor (handlePartSelect p s)"
  "gltfOriginalMaterialsRef (selectPart p s) = gltfOriginalMaterialsRef s"
  "modelGroupRef (selectPart p s) = modelGroupRef s"
  by (simp_all add: selectPart_def Let_def)

lemma selectPart_changed:
  "selectedPart s \<noteq> p \<or> selectedPartColor (handlePartSelect p s) \<noteq> selectedPartColor s
   \<Longrightarrow> selectPart p s
         = applyPartColor p (threeColor s (selectedPartColor (handlePartSelect p s)))
             (handlePartSelect p s)"
  by (auto simp: selectPart_def Let_def)

lemma selectPart_unchanged:
  "selectedPart (handlePartSelect p s) = selectedPart s
   \<Longrightarrow> selectedPartColor (handlePartSelect p s) = selectedPartColor s
   \<Longrightarrow> selectPart p s = s"
proof -
  assume a: "selectedPart (handlePartSelect p s) = selectedPart s"
    "selectedPartColor (handlePartSelect p s) = selectedPartColor s"
  then have "selectPart p s = handlePartSelect p s"
    by (simp add: selectPart_def Let_def)
  moreover have "handlePartSelect p s = s"
    using a by (cases s) (auto simp: handlePartSelect_def Let_def split: option.splits)
  ultimately show ?thesis by simp
qed

lemma selectPart_no_materials:
  assumes "p = None \<or> modelGroupRef s = None
           \<or> (\<exists>u. p = Some u \<and> map_of (gltfOriginalMaterialsRef s) u = None)"
  shows "mats (selectPart p s) = mats s" "arrays (selectPart p s) = arrays s"
    "meshes (selectPart p s) = meshes s" "activeMaterialsRef (selectPart p s) = activeMaterialsRef s"
proof -
  have "applyPartColor p c (handlePartSelect p s) = handlePartSelect p s" for c
  proof (cases p)
    case None
    then show ?thesis by simp
  next
    case (Some u)
    with assms have "modelGroupRef (handlePartSelect p s) = None
        \<or> map_of (gltfOriginalMaterialsRef (handlePartSelect p s)) u = None"
      by auto
    then show ?thesis unfolding Some by (rule applyPartColor_noop)
  qed
  then have "selectPart p s = handlePartSelect p s"
    by (simp add: selectPart_def Let_def)
  then show "mats (selectPart p s) = mats s" "arrays (selectPart p s) = arrays s"
    "meshes (selectPart p s) = meshes s" "activeMaterialsRef (selectPart p s) = activeMaterialsRef s"
    by simp_all
qed

lemma selectPart_recolours:
  assumes "selectedPart s \<noteq> Some u
           \<or> selectedPartColor (handlePartSelect (Some u) s) \<noteq> selectedPartColor s"
    and "modelGroupRef s = Some g"
    and "map_of (gltfOriginalMaterialsRef s) u = Some orig"
  shows "activeMaterialsRef (selectPart (Some u) s)
           = AList.update u
               (fst (cloneRef (threeColor s (selectedPartColor (handlePartSelect (Some u) s))) orig s))
               (activeMaterialsRef s)"
    and "map_option mesh_material (meshes (selectPart (Some u) s) u)
           = map_option
               (\<lambda>m. fst (cloneRef (threeColor s (selectedPartColor (handlePartSelect (Some u) s))) orig s))
               (meshes s u)"
    and "length (mats (selectPart (Some u) s)) = length (mats s) + length (refAddrs s orig)"
proof -
  let ?h = "handlePartSelect (Some u) s"
  let ?c = "threeColor s (selectedPartColor ?h)"
  have g: "modelGroupRef ?h = Some g" and o: "map_of (gltfOriginalMaterialsRef ?h) u = Some orig"
    using assms by simp_all
  have s: "selectPart (Some u) s = applyPartColor (Some u) ?c ?h"
    using assms(1) by (rule selectPart_changed)
  have n: "fst (cloneRef ?c orig ?h) = fst (cloneRef ?c orig s)"
    by (cases orig) simp_all
  show "activeMaterialsRef (selectPart (Some u) s)
           = AList.update u (fst (cloneRef ?c orig s)) (activeMaterialsRef s)"
    unfolding s applyPartColor_active [OF g o] n by simp
  show "map_option mesh_material (meshes (selectPart (Some u) s) u)
           = map_option (\<lambda>m. fst (cloneRef ?c orig s)) (meshes s u)"
    unfolding s applyPartColor_meshes [OF g o] n by (simp split: option.splits)
  show "length (mats (selectPart (Some u) s)) = length (mats s) + length (refAddrs s orig)"
    unfolding s
    by (simp add: applyPartColor_Some [OF g o] disposePrevious_def mats_disposeRef
        cloneRef_mats components_def refAddrs_cong [of ?h s] split: option.splits)
qed


subsection \<open>The concrete sessions\<close>

lemma load_into_mounted:
  "load (ReadDone (Some (Decoded g))) mountedSession =
     onParsed g (mountedSession\<lparr>isLoading := True\<rparr>)"
proof -
  have "gltfLoaderRef mountedSession" "sceneRef mountedSession"
    by (simp_all add: mountedSession_def)
  from load_Decoded [OF this] show ?thesis
    by (simp add: mountedSession_def removeModel_def)
qed

lemma demo_load:
  "load (ReadDone (Some (Decoded demoGltf))) mountedSession = (ModelLoaded, loadedSession)"
proof -
  define s2 where "s2 = registerMeshes (children (gltf_scene demoGltf))
     ((allocate demoGltf (mountedSession\<lparr>isLoading := True\<rparr>))
        \<lparr>modelGroupRef := Some (gltf_scene demoGltf)\<rparr>)"
  have 2: "s2 = mountedSession\<lparr>isLoading := True, mats := mats loadedSession,
        arrays := arrays loadedSession,
        meshes := meshes loadedSession, modelGroupRef := Some (gltf_scene demoGltf),
        gltfOriginalMaterialsRef := gltfOriginalMaterialsRef loadedSession,
        activeMaterialsRef := activeMaterialsRef loadedSession\<rparr>"
    unfolding s2_def
    by (simp add: allocate_def mountedSession_def demoGltf_def loadedSession_def fun_eq_iff)
  have 3: "adjustCameraAndLightsToModel
       (s2\<lparr>modelGroupRef := map_option (\<lambda>m. m\<lparr>in_scene := True\<rparr>) (modelGroupRef s2)\<rparr>)
     = s2\<lparr>modelGroupRef := modelGroupRef loadedSession, cameraRef := cameraRef loadedSession\<rparr>"
    unfolding 2
    by (simp add: adjustCameraAndLightsToModel_def mountedSession_def demoGltf_def
        loadedSession_def setFromObject_def toWorld_def vec_def getSize_def getCenter_def
        vsub_def fitScaleOf_def maxDimOf_def Let_def)
  have 4: "sceneRef s2"
    unfolding 2 by (simp add: mountedSession_def)
  have "onParsed demoGltf (mountedSession\<lparr>isLoading := True\<rparr>)
     = (ModelLoaded, s2\<lparr>modelGroupRef := modelGroupRef loadedSession,
          cameraRef := cameraRef loadedSession, isLoading := False, selectedPart := None\<rparr>)"
    unfolding onParsed_def Let_def s2_def [symmetric] using 3 4 by simp
  also have "\<dots> = (ModelLoaded, loadedSession)"
    unfolding 2 by (simp add: mountedSession_def loadedSession_def demoGltf_def)
  finally show ?thesis
    by (simp add: load_into_mounted)
qed

lemma point_load_scale:
  "map_option g_scale
     (modelGroupRef (snd (load (ReadDone (Some (Decoded pointGltf))) mountedSession)))
   = Some (vec 5 5 5)"
proof -
  define s2 where "s2 = registerMeshes (children (gltf_scene pointGltf))
     ((allocate pointGltf (mountedSession\<lparr>isLoading := True\<rparr>))
        \<lparr>modelGroupRef := Some (gltf_scene pointGltf)\<rparr>)"
  have 2: "modelGroupRef s2 = Some (gltf_scene pointGltf)" "sceneRef s2" "controlsRef s2"
    "spotLightRef s2" "cameraRef s2 = cameraRef mountedSession"
    unfolding s2_def by (simp_all add: allocate_def mountedSession_def)
  have "map_option g_scale (modelGroupRef (adjustCameraAndLightsToModel
       (s2\<lparr>modelGroupRef := map_option (\<lambda>m. m\<lparr>in_scene := True\<rparr>) (modelGroupRef s2)\<rparr>)))
     = Some (vec 5 5 5)"
    using 2
    by (simp add: adjustCameraAndLightsToModel_def mountedSession_def demoGltf_def pointGltf_def
        setFromObject_def toWorld_def vec_def getSize_def getCenter_def
        vsub_def fitScaleOf_def maxDimOf_def Let_def)
  then show ?thesis
    unfolding load_into_mounted onParsed_def Let_def s2_def [symmetric] using 2 by simp
qed


subsection \<open>What a recolouring disposes\<close>

lemma applyPartColor_original_untouched:
  assumes "sessionInvariant s" "a \<in> set (originalAddrs s)"
  shows "mats (applyPartColor p c s) ! a = mats s ! a"
proof (cases "\<exists>u g orig. p = Some u \<and> modelGroupRef s = Some g
                \<and> map_of (gltfOriginalMaterialsRef s) u = Some orig")
  case False
  then have "applyPartColor p c s = s"
    by (cases p) (auto simp: applyPartColor_def split: option.splits)
  then show ?thesis by simp
next
  case True
  then obtain u g orig where p: "p = Some u" and g: "modelGroupRef s = Some g"
    and o: "map_of (gltfOriginalMaterialsRef s) u = Some orig" by blast
  have wf: "wellFormed s" using assms(1) by (rule sessionInvariant_wellFormed)
  have pok: "\<And>q. map_of (activeMaterialsRef s) u = Some q \<Longrightarrow> refOk s q"
    using wf by (rule wellFormed_active)
  let ?ds = "case map_of (activeMaterialsRef s) u of
               None \<Rightarrow> [] | Some q \<Rightarrow> if q = orig then [] else refAddrs s q"
  have a: "a < length (mats s)" using wf assms(2) by (rule originalAddrs_bound)
  have m: "mats (applyPartColor (Some u) c s)
             = fold dispose ?ds (mats s @ map (cloneAndColorMaterial c) (components s orig))"
    using g o pok by (rule applyPartColor_mats)
  have "a \<notin> set ?ds"
  proof (cases "map_of (activeMaterialsRef s) u")
    case None
    then show ?thesis by simp
  next
    case (Some q)
    show ?thesis
    proof (cases "q = orig")
      case True
      with Some show ?thesis by simp
    next
      case False
      from Some have "(u, q) \<in> set (activeMaterialsRef s)" by (rule map_of_SomeD)
      from sessionInvariant_entry [OF assms(1) this] o False have "isCloneOf s q orig" by simp
      then have "a \<notin> set (refAddrs s q)"
        using assms(2) by (auto simp: isCloneOf_def list_all_iff)
      with Some False show ?thesis by simp
    qed
  qed
  then have "fold dispose ?ds (mats s @ map (cloneAndColorMaterial c) (components s orig)) ! a
               = (mats s @ map (cloneAndColorMaterial c) (components s orig)) ! a"
    by (rule nth_fold_dispose_other)
  with a show ?thesis by (simp add: p m nth_append)
qed

lemma applyPartColor_disposes_previous:
  assumes "wellFormed s" "modelGroupRef s = Some g"
    and "map_of (gltfOriginalMaterialsRef s) u = Some orig"
    and "map_of (activeMaterialsRef s) u = Some prev"
  shows "prev \<noteq> orig \<Longrightarrow> a \<in> set (refAddrs s prev)
           \<Longrightarrow> mat_disposed (mats (applyPartColor (Some u) c s) ! a)"
    and "prev \<noteq> orig \<Longrightarrow> a < length (mats s) \<Longrightarrow> a \<notin> set (refAddrs s prev)
           \<Longrightarrow> mats (applyPartColor (Some u) c s) ! a = mats s ! a"
    and "prev = orig \<Longrightarrow> a < length (mats s)
           \<Longrightarrow> mats (applyPartColor (Some u) c s) ! a = mats s ! a"
proof -
  have pok: "\<And>q. map_of (activeMaterialsRef s) u = Some q \<Longrightarrow> refOk s q"
    using assms(1) by (rule wellFormed_active)
  have m: "mats (applyPartColor (Some u) c s)
             = fold dispose (if prev = orig then [] else refAddrs s prev)
                 (mats s @ map (cloneAndColorMaterial c) (components s orig))"
    using applyPartColor_mats [of s g u orig c] assms(2,3,4) pok by simp
  {
    assume n: "prev \<noteq> orig" and a: "a \<in> set (refAddrs s prev)"
    have "a < length (mats s)" using pok [OF assms(4)] a by (rule refAddrs_bound)
    then show "mat_disposed (mats (applyPartColor (Some u) c s) ! a)"
      using n a by (simp add: m disposed_fold_dispose)
  next
    assume "prev \<noteq> orig" "a < length (mats s)" "a \<notin> set (refAddrs s prev)"
    then show "mats (applyPartColor (Some u) c s) ! a = mats s ! a"
      by (simp add: m nth_fold_dispose_other nth_append)
  next
    assume "prev = orig" "a < length (mats s)"
    then show "mats (applyPartColor (Some u) c s) ! a = mats s ! a"
      by (simp add: m nth_append)
  }
qed

lemma components_cong:
  "mats t = mats s \<Longrightarrow> arrays t = arrays s \<Longrightarrow> components t r = components s r"
  by (simp add: components_def refAddrs_cong [of t s])

lemma loadedSession_invariant: "sessionInvariant loadedSession"
proof -
  have "gltfLoaderRef mountedSession" "sceneRef mountedSession"
    by (simp_all add: mountedSession_def)
  moreover have "gltfOk mountedSession demoGltf"
    by (simp add: gltfOk_def allocate_def mountedSession_def demoGltf_def)
  ultimately have "sessionInvariant (snd (load (ReadDone (Some (Decoded demoGltf))) mountedSession))"
    by (rule load_Decoded_invariant)
  then show ?thesis by (simp add: demo_load)
qed


subsection \<open>What a selection does to materials\<close>

lemma wellFormed_handlePartSelect: "wellFormed (handlePartSelect p s) = wellFormed s"
  by (simp add: wellFormed_def refOk_cong [of "handlePartSelect p s" s])

lemma selectPart_disposes_previous:
  assumes "selectedPart s \<noteq> Some u
           \<or> selectedPartColor (handlePartSelect (Some u) s) \<noteq> selectedPartColor s"
    and "wellFormed s" "modelGroupRef s = Some g"
    and "map_of (gltfOriginalMaterialsRef s) u = Some orig"
    and "map_of (activeMaterialsRef s) u = Some prev" "prev \<noteq> orig"
    and "a \<in> set (refAddrs s prev)"
  shows "mat_disposed (mats (selectPart (Some u) s) ! a)"
proof -
  let ?h = "handlePartSelect (Some u) s"
  have wf: "wellFormed ?h" using assms(2) by (simp add: wellFormed_handlePartSelect)
  have g: "modelGroupRef ?h = Some g" and o: "map_of (gltfOriginalMaterialsRef ?h) u = Some orig"
    and p: "map_of (activeMaterialsRef ?h) u = Some prev"
    using assms(3,4,5) by simp_all
  have a: "a \<in> set (refAddrs ?h prev)"
    using assms(7) by (simp add: refAddrs_cong [of ?h s])
  have "mat_disposed (mats (applyPartColor (Some u) c ?h) ! a)" for c
    using wf g o p assms(6) a by (rule applyPartColor_disposes_previous(1))
  then show ?thesis
    by (simp add: selectPart_changed [OF assms(1)])
qed

lemma cloneAndColorMaterial_color:
  "mat_color (cloneAndColorMaterial c m)
     = (if mat_color m \<noteq> None \<or> mat_class m \<noteq> OtherMaterial then Some c else None)"
  by (cases "mat_class m") (simp_all add: cloneAndColorMaterial_def Let_def)

lemma recoloured_reached:
  "selectPart None (pickPartColor ''#ff0000'' (selectPart (Some ''wheel'') loadedSession))
     = recolouredSession"
proof -
  define s1 where "s1 = loadedSession
       \<lparr>mats := mats loadedSession @
          [\<lparr>mat_class = MeshBasicMaterial, mat_color = Some 0x0000FF, mat_disposed = False\<rparr>,
           \<lparr>mat_class = OtherMaterial, mat_color = None, mat_disposed = False\<rparr>],
        arrays := [[1, 2], [3, 4]],
        meshes := (meshes loadedSession)(''wheel'' \<mapsto>
          \<lparr>mesh_material = Multi 1, castShadow = True, receiveShadow = True,
           geometry_disposed = False\<rparr>),
        activeMaterialsRef := [(''body'', Single 0), (''wheel'', Multi 1)],
        selectedPart := Some ''wheel'',
        selectedPartColor := ''#0000ff''\<rparr>"
  have 1: "selectPart (Some ''wheel'') loadedSession = s1"
    unfolding s1_def
    by (simp add: selectPart_def handlePartSelect_def Let_def loadedSession_def applyPartColor_def
        disposePrevious_def installMaterial_def cloneAndColorMaterial_def getHexString_def
        hexDigits_6 hexDigit_def threeColor_def parseHex_def digitValue_def parseInt16_def
        defaultPartColor_def)
  have 2: "pickPartColor ''#ff0000'' s1 = recolouredSession\<lparr>selectedPart := Some ''wheel''\<rparr>"
    unfolding s1_def
    by (simp add: pickPartColor_def Let_def loadedSession_def recolouredSession_def
        applyPartColor_def disposePrevious_def installMaterial_def cloneAndColorMaterial_def
        dispose_def threeColor_def parseHex_def digitValue_def parseInt16_def fun_eq_iff)
  show ?thesis
    unfolding 1 2 by (simp add: recolouredSession_def loadedSession_def)
qed


section \<open>The claims\<close>




text \<open>
  C2: the scale of the camera framing is 5 divided by the largest extent of the bounding
  box, and 1 for a box of no extent. The code computes the first (\<open>fitScaleOf_extent\<close>,
  and \<open>cube_framing\<close> for the cube of the scenario) but not the second: \<open>maxDim\<close> has
  already been replaced by 1 when the extent is zero, so the test \<open>maxDim === 0\<close> never
  holds and the scale of a model whose box is a single point, or that has no geometry
  at all, is 5.
\<close>

theorem degenerate_box_scale_is_five:
  "fitScaleOf (getSize (setFromObject (gltf_scene pointGltf))) = 5
   \<and> fitScaleOf (getSize None) = 5
   \<and> map_option g_scale
        (modelGroupRef (snd (load (ReadDone (Some (Decoded pointGltf))) mountedSession)))
      = Some (vec 5 5 5)"
  by (simp add: point_load_scale)
     (simp add: pointGltf_def demoGltf_def setFromObject_def toWorld_def vec_def getSize_def
        vsub_def fitScaleOf_def maxDimOf_def Let_def)




text \<open>
  C4: recolouring is independent of the order and idempotent, because every recolouring
  clones the original material and never the active one. For a part \<open>M\<close> that has an
  original material, \<open>setPartColor M red\<close> followed by \<open>setPartColor M blue\<close> leaves the
  same active material content for \<open>M\<close> (the same colours in particular) as
  \<open>setPartColor M blue\<close> alone, and calling \<open>setPartColor M c\<close> twice leaves what calling
  it once leaves. With a model loaded, that content is the original's, cloned and
  coloured blue.
\<close>

theorem setPartColor_order_independent:
  assumes "wellFormed s" and "map_of (gltfOriginalMaterialsRef s) M = Some orig"
  shows "activeContent (setPartColor M blue (setPartColor M red s)) M
           = activeContent (setPartColor M blue s) M
    \<and> activeColors (setPartColor M blue (setPartColor M red s)) M
           = activeColors (setPartColor M blue s) M
    \<and> activeContent (setPartColor M c (setPartColor M c s)) M
           = activeContent (setPartColor M c s) M
    \<and> activeColors (setPartColor M c (setPartColor M c s)) M
           = activeColors (setPartColor M c s) M
    \<and> (modelGroupRef s \<noteq> None \<longrightarrow>
         activeContent (setPartColor M blue (setPartColor M red s)) M
           = Some (map (cloneAndColorMaterial blue) (components s orig)))"
proof -
  have twice: "activeContent (setPartColor M c2 (setPartColor M c1 s)) M
           = activeContent (setPartColor M c2 s) M" for c1 c2
    unfolding setPartColor_def using assms(1) by (rule recolour_twice)
  have "activeContent (setPartColor M blue s) M
           = Some (map (cloneAndColorMaterial blue) (components s orig))"
    if "modelGroupRef s \<noteq> None"
  proof -
    from that obtain g where g: "modelGroupRef s = Some g" by blast
    have "\<And>p. map_of (activeMaterialsRef s) M = Some p \<Longrightarrow> refOk s p"
      using assms(1) by (rule wellFormed_active)
    from applyPartColor_content [OF g assms(2) this] show ?thesis
      by (simp add: setPartColor_def)
  qed
  with twice show ?thesis
    by (simp add: activeColors_def)
qed

theorem setPartColor_order_independent_witness:
  "wellFormed loadedSession
   \<and> map_of (gltfOriginalMaterialsRef loadedSession) ''wheel'' = Some (Multi 0)
   \<and> activeColors (setPartColor ''wheel'' 0x0000FF (setPartColor ''wheel'' 0xFF0000 loadedSession)) ''wheel''
       = activeColors (setPartColor ''wheel'' 0x0000FF loadedSession) ''wheel''
   \<and> activeColors (setPartColor ''wheel'' 0x00FFFF (setPartColor ''wheel'' 0x00FFFF loadedSession)) ''wheel''
       = activeColors (setPartColor ''wheel'' 0x00FFFF loadedSession) ''wheel''
   \<and> activeContent (setPartColor ''wheel'' 0x0000FF (setPartColor ''wheel'' 0xFF0000 loadedSession)) ''wheel''
       = Some [\<lparr>mat_class = MeshBasicMaterial, mat_color = Some 0x0000FF, mat_disposed = False\<rparr>,
               \<lparr>mat_class = OtherMaterial, mat_color = None, mat_disposed = False\<rparr>]"
proof -
  have h: "wellFormed loadedSession"
    "map_of (gltfOriginalMaterialsRef loadedSession) ''wheel'' = Some (Multi 0)"
    by (simp_all add: wellFormed_def loadedSession_def)
  have g: "modelGroupRef loadedSession \<noteq> None"
    by (simp add: loadedSession_def)
  have c: "map (cloneAndColorMaterial 0x0000FF) (components loadedSession (Multi 0))
       = [\<lparr>mat_class = MeshBasicMaterial, mat_color = Some 0x0000FF, mat_disposed = False\<rparr>,
          \<lparr>mat_class = OtherMaterial, mat_color = None, mat_disposed = False\<rparr>]"
    by (simp add: components_def loadedSession_def cloneAndColorMaterial_def)
  note t = setPartColor_order_independent [OF h, of "0x0000FF" "0xFF0000" "0x00FFFF"]
  from t g have "activeContent
        (setPartColor ''wheel'' 0x0000FF (setPartColor ''wheel'' 0xFF0000 loadedSession)) ''wheel''
      = Some (map (cloneAndColorMaterial 0x0000FF) (components loadedSession (Multi 0)))"
    by blast
  then have "activeContent
        (setPartColor ''wheel'' 0x0000FF (setPartColor ''wheel'' 0xFF0000 loadedSession)) ''wheel''
      = Some [\<lparr>mat_class = MeshBasicMaterial, mat_color = Some 0x0000FF, mat_disposed = False\<rparr>,
              \<lparr>mat_class = OtherMaterial, mat_color = None, mat_disposed = False\<rparr>]"
    by (simp only: c)
  with h t show ?thesis by blast
qed

text \<open>
  C5: the session invariant. Every part with an active material has an original
  material, and the active one is either the very same object or a clone derived from
  it (another object, with materials of the same classes that are none of the
  loader's). A successful load of a model whose materials exist establishes the
  invariant, and right after it every active material is the original one, which for a
  mesh of the model is the material the loader gave it; unloading,
  loading (successfully or not, also when the loader throws), selecting a part,
  recolouring, entering a colour string and both exports preserve it.
\<close>

theorem session_invariant:
  "(gltfLoaderRef s \<and> sceneRef s \<and> gltfOk s g
      \<longrightarrow> sessionInvariant (snd (load (ReadDone (Some (Decoded g))) s))
          \<and> activeMaterialsRef (snd (load (ReadDone (Some (Decoded g))) s))
              = gltfOriginalMaterialsRef (snd (load (ReadDone (Some (Decoded g))) s))
          \<and> map_of (activeMaterialsRef (snd (load (ReadDone (Some (Decoded g))) s))) M
              = map_of (gltfOriginalMaterialsRef (snd (load (ReadDone (Some (Decoded g))) s))) M
          \<and> (M \<in> set (children (gltf_scene g)) \<and> meshes (allocate g s) M = Some m
              \<longrightarrow> map_of (activeMaterialsRef (snd (load (ReadDone (Some (Decoded g))) s))) M
                    = Some (mesh_material m)))
   \<and> (sessionInvariant s
      \<longrightarrow> sessionInvariant (unload s)
          \<and> (gltfOk s g \<longrightarrow> sessionInvariant (snd (load (ReadDone (Some (Decoded g))) s)))
          \<and> sessionInvariant (snd (load (ReadDone (Some Malformed)) s))
          \<and> sessionInvariant (snd (load (ReadDone (Some Throws)) s))
          \<and> sessionInvariant (snd (load (ReadDone None) s))
          \<and> sessionInvariant (snd (load ReadFailed s))
          \<and> sessionInvariant (selectPart part s)
          \<and> sessionInvariant (setPartColor M c s)
          \<and> sessionInvariant (pickPartColor style s)
          \<and> sessionInvariant (snd (exportToImage k s))
          \<and> sessionInvariant (snd (exportToGLB b s)))"
proof (intro conjI impI)
  assume a: "gltfLoaderRef s \<and> sceneRef s \<and> gltfOk s g"
  then have r: "gltfLoaderRef s" "sceneRef s" "gltfOk s g" by simp_all
  show "sessionInvariant (snd (load (ReadDone (Some (Decoded g))) s))"
    using r by (rule load_Decoded_invariant(1))
  show e: "activeMaterialsRef (snd (load (ReadDone (Some (Decoded g))) s))
         = gltfOriginalMaterialsRef (snd (load (ReadDone (Some (Decoded g))) s))"
    using r by (rule load_Decoded_invariant(2))
  show "map_of (activeMaterialsRef (snd (load (ReadDone (Some (Decoded g))) s))) M
         = map_of (gltfOriginalMaterialsRef (snd (load (ReadDone (Some (Decoded g))) s))) M"
    by (simp only: e)
  assume "M \<in> set (children (gltf_scene g)) \<and> meshes (allocate g s) M = Some m"
  then show "map_of (activeMaterialsRef (snd (load (ReadDone (Some (Decoded g))) s))) M
         = Some (mesh_material m)"
    using r(1,2) by (simp add: load_Decoded_entry)
next
  assume i: "sessionInvariant s"
  show "sessionInvariant (unload s)" using i by (rule unload_invariant)
  show "sessionInvariant (snd (load (ReadDone (Some Malformed)) s))"
    "sessionInvariant (snd (load (ReadDone (Some Throws)) s))"
    "sessionInvariant (snd (load (ReadDone None) s))"
    "sessionInvariant (snd (load ReadFailed s))"
    using i by (rule load_other_invariant, simp)+
  show "sessionInvariant (selectPart part s)" using i by (rule selectPart_invariant)
  show "sessionInvariant (setPartColor M c s)"
    unfolding setPartColor_def using i by (rule sessionInvariant_applyPartColor)
  show "sessionInvariant (pickPartColor style s)" using i by (rule pickPartColor_invariant)
  show "sessionInvariant (snd (exportToImage k s))" "sessionInvariant (snd (exportToGLB b s))"
    using i by (rule exports_invariant)+
  assume ok: "gltfOk s g"
  show "sessionInvariant (snd (load (ReadDone (Some (Decoded g))) s))"
  proof (cases "gltfLoaderRef s \<and> sceneRef s")
    case True
    then show ?thesis using ok by (simp add: load_Decoded_invariant(1))
  next
    case False
    have "sessionInvariant (snd (load (ReadDone (Some (Decoded g))) s)) = sessionInvariant s"
      by (rule sessionInvariant_cong) (use False in \<open>auto simp: load_def loadModelEffect_def\<close>)
    with i show ?thesis by simp
  qed
qed

theorem session_invariant_witness:
  "gltfLoaderRef mountedSession \<and> sceneRef mountedSession \<and> gltfOk mountedSession demoGltf
   \<and> snd (load (ReadDone (Some (Decoded demoGltf))) mountedSession) = loadedSession
   \<and> sessionInvariant loadedSession
   \<and> activeMaterialsRef loadedSession = gltfOriginalMaterialsRef loadedSession
   \<and> sessionInvariant (setPartColor ''wheel'' 0x0000FF loadedSession)
   \<and> sessionInvariant (selectPart (Some ''body'') loadedSession)
   \<and> sessionInvariant (unload loadedSession)
   \<and> sessionInvariant (snd (load (ReadDone (Some Malformed)) loadedSession))
   \<and> sessionInvariant (snd (load (ReadDone (Some Throws)) loadedSession))
   \<and> sessionInvariant (pickPartColor ''#00FFFF'' loadedSession)"
proof -
  have h: "gltfLoaderRef mountedSession" "sceneRef mountedSession"
    "gltfOk mountedSession demoGltf"
    by (simp_all add: gltfOk_def allocate_def mountedSession_def demoGltf_def)
  have 1: "sessionInvariant loadedSession
      \<and> activeMaterialsRef loadedSession = gltfOriginalMaterialsRef loadedSession"
    using session_invariant [where s = mountedSession and g = demoGltf] h
    by (simp add: demo_load)
  then have "sessionInvariant loadedSession" by simp
  then have 2: "sessionInvariant (setPartColor ''wheel'' 0x0000FF loadedSession)
      \<and> sessionInvariant (selectPart (Some ''body'') loadedSession)
      \<and> sessionInvariant (unload loadedSession)
      \<and> sessionInvariant (snd (load (ReadDone (Some Malformed)) loadedSession))
      \<and> sessionInvariant (snd (load (ReadDone (Some Throws)) loadedSession))
      \<and> sessionInvariant (pickPartColor ''#00FFFF'' loadedSession)"
    using session_invariant [where s = loadedSession and g = demoGltf and M = "''wheel''"
        and part = "Some ''body''" and c = "0x0000FF" and style = "''#00FFFF''"]
    by blast
  from h 1 2 show ?thesis by (simp add: demo_load)
qed

text \<open>
  C6: after an unload that follows a load, the original and the active materials are
  empty, the root is absent and no part is selected; a second unload changes nothing.
\<close>

theorem unload_after_load:
  assumes "gltfLoaderRef s" and "sceneRef s"
  shows "gltfOriginalMaterialsRef (unload (snd (load payload s))) = []
    \<and> activeMaterialsRef (unload (snd (load payload s))) = []
    \<and> modelGroupRef (unload (snd (load payload s))) = None
    \<and> selectedPart (unload (snd (load payload s))) = None
    \<and> unload (unload (snd (load payload s))) = unload (snd (load payload s))"
proof -
  have "unload (snd (load payload s)) = clearModel (snd (load payload s))"
    using assms by (simp add: unload_ready)
  moreover have "unload (unload (snd (load payload s))) = unload (snd (load payload s))"
    by (rule unload_idem)
  ultimately show ?thesis
    by (simp add: clearModel_fields)
qed

theorem unload_after_load_witness:
  "gltfLoaderRef mountedSession \<and> sceneRef mountedSession
   \<and> snd (load (ReadDone (Some (Decoded demoGltf))) mountedSession) = loadedSession
   \<and> activeMaterialsRef loadedSession \<noteq> []
   \<and> gltfOriginalMaterialsRef (unload loadedSession) = []
   \<and> activeMaterialsRef (unload loadedSession) = []
   \<and> modelGroupRef (unload loadedSession) = None
   \<and> selectedPart (unload loadedSession) = None
   \<and> unload (unload loadedSession) = unload loadedSession"
proof -
  have h: "gltfLoaderRef mountedSession" "sceneRef mountedSession"
    by (simp_all add: mountedSession_def)
  have "activeMaterialsRef loadedSession \<noteq> []"
    by (simp add: loadedSession_def)
  then show ?thesis
    using h unload_after_load [OF h, of "ReadDone (Some (Decoded demoGltf))"]
    by (simp add: demo_load)
qed

text \<open>
  C7: recolouring a part whose identifier is not among the original materials does
  nothing: the session after the call is the session before it.
\<close>

theorem setPartColor_unknown_part:
  assumes "map_of (gltfOriginalMaterialsRef s) identifier = None"
  shows "setPartColor identifier c s = s"
  using assms by (simp add: setPartColor_def applyPartColor_def)

theorem setPartColor_unknown_part_witness:
  "map_of (gltfOriginalMaterialsRef loadedSession) ''door'' = None
   \<and> setPartColor ''door'' 0x0000FF loadedSession = loadedSession"
proof -
  have h: "map_of (gltfOriginalMaterialsRef loadedSession) ''door'' = None"
    by (simp add: loadedSession_def)
  show ?thesis
    using h setPartColor_unknown_part [OF h, of "0x0000FF"] by simp
qed

text \<open>
  C8: when a recolouring replaces the active material of a part, it disposes the
  previous active material exactly when that is not the original of the part: a
  previous clone has all its materials disposed and nothing else is touched; when the
  previous active material is the original, no existing material is touched. In every
  case the materials the loader has supplied are left as they are, so none of them is
  disposed by a recolouring.
\<close>

theorem recolour_disposes_only_clones:
  assumes "sessionInvariant s"
  shows "(\<forall>a \<in> set (originalAddrs s). mats (setPartColor M c s) ! a = mats s ! a)
    \<and> (modelGroupRef s \<noteq> None \<and> map_of (gltfOriginalMaterialsRef s) M = Some orig
        \<and> map_of (activeMaterialsRef s) M = Some prev
       \<longrightarrow> (if prev = orig
            then \<forall>a < length (mats s). mats (setPartColor M c s) ! a = mats s ! a
            else (\<forall>a \<in> set (refAddrs s prev). mat_disposed (mats (setPartColor M c s) ! a))
               \<and> (\<forall>a < length (mats s). a \<notin> set (refAddrs s prev)
                    \<longrightarrow> mats (setPartColor M c s) ! a = mats s ! a)))"
proof (intro conjI impI ballI)
  fix a assume "a \<in> set (originalAddrs s)"
  with assms show "mats (setPartColor M c s) ! a = mats s ! a"
    unfolding setPartColor_def by (rule applyPartColor_original_untouched)
next
  assume a: "modelGroupRef s \<noteq> None \<and> map_of (gltfOriginalMaterialsRef s) M = Some orig
        \<and> map_of (activeMaterialsRef s) M = Some prev"
  then obtain g where g: "modelGroupRef s = Some g" by blast
  have wf: "wellFormed s" using assms by (rule sessionInvariant_wellFormed)
  from a have o: "map_of (gltfOriginalMaterialsRef s) M = Some orig"
    and p: "map_of (activeMaterialsRef s) M = Some prev" by simp_all
  note d = applyPartColor_disposes_previous [OF wf g o p]
  show "if prev = orig
        then \<forall>a < length (mats s). mats (setPartColor M c s) ! a = mats s ! a
        else (\<forall>a \<in> set (refAddrs s prev). mat_disposed (mats (setPartColor M c s) ! a))
           \<and> (\<forall>a < length (mats s). a \<notin> set (refAddrs s prev)
                \<longrightarrow> mats (setPartColor M c s) ! a = mats s ! a)"
    unfolding setPartColor_def using d by simp
qed

theorem recolour_disposes_only_clones_witness:
  "sessionInvariant loadedSession
   \<and> sessionInvariant (setPartColor ''body'' 0xFF0000 loadedSession)
   \<and> map_of (activeMaterialsRef loadedSession) ''body'' = Some (Single 0)
   \<and> mats (setPartColor ''body'' 0xFF0000 loadedSession) ! 0 = mats loadedSession ! 0
   \<and> map_of (activeMaterialsRef (setPartColor ''body'' 0xFF0000 loadedSession)) ''body''
       = Some (Single 3)
   \<and> mat_disposed
       (mats (setPartColor ''body'' 0x0000FF (setPartColor ''body'' 0xFF0000 loadedSession)) ! 3)
   \<and> mats (setPartColor ''body'' 0x0000FF (setPartColor ''body'' 0xFF0000 loadedSession)) ! 0
       = mats loadedSession ! 0"
proof -
  let ?s1 = "setPartColor ''body'' 0xFF0000 loadedSession"
  have i0: "sessionInvariant loadedSession" by (rule loadedSession_invariant)
  have i1: "sessionInvariant ?s1"
    unfolding setPartColor_def using i0 by (rule sessionInvariant_applyPartColor)
  have g: "modelGroupRef loadedSession = Some \<lparr>children = [''body'', ''wheel''],
              g_position = vec (- 25) (- 25) (- 25), g_scale = vec (5 / 2) (5 / 2) (5 / 2),
              content_box = Some (vec 9 9 9, vec 11 11 11),
              in_scene = True\<rparr>"
    and o: "map_of (gltfOriginalMaterialsRef loadedSession) ''body'' = Some (Single 0)"
    and p: "map_of (activeMaterialsRef loadedSession) ''body'' = Some (Single 0)"
    and l: "length (mats loadedSession) = 3"
    and oa: "originalAddrs loadedSession = [0, 1, 2]"
    by (simp_all add: loadedSession_def originalAddrs_def)
  have g1: "modelGroupRef ?s1 \<noteq> None"
    and o1: "map_of (gltfOriginalMaterialsRef ?s1) ''body'' = Some (Single 0)"
    using g o by (simp_all add: setPartColor_def)
  have p1: "map_of (activeMaterialsRef ?s1) ''body'' = Some (Single 3)"
    unfolding setPartColor_def applyPartColor_active [OF g o]
    by (simp add: update_conv' l)
  have r1: "refAddrs ?s1 (Single 3) = [3]" by simp
  have a: "mats ?s1 ! 0 = mats loadedSession ! 0"
    using recolour_disposes_only_clones [OF i0, of "''body''" "0xFF0000" "Single 0" "Single 0"]
      g o p l by simp
  have b: "mat_disposed (mats (setPartColor ''body'' 0x0000FF ?s1) ! 3)"
    using recolour_disposes_only_clones [OF i1, of "''body''" "0x0000FF" "Single 0" "Single 3"]
      g1 o1 p1 r1 by simp
  have oa1: "0 \<in> set (originalAddrs ?s1)"
    using storeGrows_originalAddrs [OF storeGrows_applyPartColor sessionInvariant_wellFormed [OF i0],
        of "Some ''body''" "0xFF0000"] oa
    by (simp add: setPartColor_def)
  have c: "mats (setPartColor ''body'' 0x0000FF ?s1) ! 0 = mats ?s1 ! 0"
    using recolour_disposes_only_clones [OF i1, of "''body''" "0x0000FF" "Single 0" "Single 3"] oa1
    by blast
  from i0 i1 p a p1 b c show ?thesis by simp
qed




text \<open>
  C10: when a part is selected, the part colour of the session becomes the hex colour
  of the first component of the mesh's live material that has a colour, or the default
  \<open>#FF0000\<close> when no component has one; and this colour is the one the next
  recolouring applies: the colour the effect reads from the string the session now
  holds is that colour, and the recolouring that the selection itself starts clones
  the original material of the part and gives that colour to every component of the
  clone that can take a colour, whatever colour the original has.
\<close>

theorem select_takes_live_color:
  assumes "meshes s u = Some m"
  shows "selectedPart (selectPart (Some u) s) = Some u
    \<and> selectedPartColor (selectPart (Some u) s) = liveColor s (mesh_material m)
    \<and> threeColor (selectPart (Some u) s) (selectedPartColor (selectPart (Some u) s))
        = liveRGB s (mesh_material m)
    \<and> (selectedPart s \<noteq> Some u \<or> liveColor s (mesh_material m) \<noteq> selectedPartColor s
       \<longrightarrow> selectPart (Some u) s
            = applyPartColor (Some u) (liveRGB s (mesh_material m)) (handlePartSelect (Some u) s))
    \<and> ((selectedPart s \<noteq> Some u \<or> liveColor s (mesh_material m) \<noteq> selectedPartColor s)
        \<and> wellFormed s \<and> modelGroupRef s \<noteq> None
        \<and> map_of (gltfOriginalMaterialsRef s) u = Some orig
       \<longrightarrow> activeContent (selectPart (Some u) s) u
            = Some (map (cloneAndColorMaterial (liveRGB s (mesh_material m))) (components s orig))
         \<and> activeColors (selectPart (Some u) s) u
            = Some (map (\<lambda>x. if mat_color x \<noteq> None \<or> mat_class x \<noteq> OtherMaterial
                              then Some (liveRGB s (mesh_material m)) else None)
                     (components s orig)))"
proof -
  let ?h = "handlePartSelect (Some u) s"
  let ?rgb = "liveRGB s (mesh_material m)"
  have c: "selectedPartColor ?h = liveColor s (mesh_material m)"
    using assms by (rule handlePartSelect_color)
  have 1: "selectedPart (selectPart (Some u) s) = Some u" by simp
  have 2: "selectedPartColor (selectPart (Some u) s) = liveColor s (mesh_material m)"
    using c by simp
  have 3: "threeColor (selectPart (Some u) s) (selectedPartColor (selectPart (Some u) s)) = ?rgb"
    unfolding 2 by (rule threeColor_liveColor)
  have 4: "selectPart (Some u) s = applyPartColor (Some u) ?rgb ?h"
    if "selectedPart s \<noteq> Some u \<or> liveColor s (mesh_material m) \<noteq> selectedPartColor s"
  proof -
    from that have "selectedPart s \<noteq> Some u \<or> selectedPartColor ?h \<noteq> selectedPartColor s"
      by (simp only: c)
    then have "selectPart (Some u) s = applyPartColor (Some u) (threeColor s (selectedPartColor ?h)) ?h"
      by (rule selectPart_changed)
    then show ?thesis by (simp only: c threeColor_liveColor)
  qed
  have 5: "activeContent (selectPart (Some u) s) u
             = Some (map (cloneAndColorMaterial ?rgb) (components s orig))"
    if a: "selectedPart s \<noteq> Some u \<or> liveColor s (mesh_material m) \<noteq> selectedPartColor s"
      and wf: "wellFormed s" and mg: "modelGroupRef s \<noteq> None"
      and og: "map_of (gltfOriginalMaterialsRef s) u = Some orig"
  proof -
    from mg obtain g where g: "modelGroupRef ?h = Some g" by auto
    from og have o: "map_of (gltfOriginalMaterialsRef ?h) u = Some orig" by simp
    have pok: "refOk ?h p" if "map_of (activeMaterialsRef ?h) u = Some p" for p
    proof -
      from wf that have "refOk s p" by (auto intro: wellFormed_active)
      then show ?thesis by (simp add: refOk_cong [of ?h s])
    qed
    have "activeContent (applyPartColor (Some u) ?rgb ?h) u
            = Some (map (cloneAndColorMaterial ?rgb) (components ?h orig))"
      using g o pok by (rule applyPartColor_content)
    moreover have "components ?h orig = components s orig"
      by (rule components_cong) simp_all
    ultimately show ?thesis
      by (simp add: 4 [OF a])
  qed
  have 6: "activeColors (selectPart (Some u) s) u
            = Some (map (\<lambda>x. if mat_color x \<noteq> None \<or> mat_class x \<noteq> OtherMaterial
                              then Some ?rgb else None) (components s orig))"
    if a: "selectedPart s \<noteq> Some u \<or> liveColor s (mesh_material m) \<noteq> selectedPartColor s"
      and wf: "wellFormed s" and mg: "modelGroupRef s \<noteq> None"
      and og: "map_of (gltfOriginalMaterialsRef s) u = Some orig"
    unfolding activeColors_def 5 [OF that]
    by (simp add: cloneAndColorMaterial_color comp_def)
  from 1 2 3 4 5 6 show ?thesis by blast
qed

theorem select_takes_live_color_witness:
  "meshes recolouredSession ''wheel''
     = Some \<lparr>mesh_material = Multi 2, castShadow = True, receiveShadow = True,
             geometry_disposed = False\<rparr>
   \<and> components recolouredSession (Multi 0)
       = [\<lparr>mat_class = MeshBasicMaterial, mat_color = Some 0x0000FF, mat_disposed = False\<rparr>,
          \<lparr>mat_class = OtherMaterial, mat_color = None, mat_disposed = False\<rparr>]
   \<and> liveColor recolouredSession (Multi 2) = ''#ff0000''
   \<and> liveRGB recolouredSession (Multi 2) = 0xFF0000
   \<and> liveColor recolouredSession (Single 2) = ''#FF0000''
   \<and> selectedPart (selectPart (Some ''wheel'') recolouredSession) = Some ''wheel''
   \<and> selectedPartColor (selectPart (Some ''wheel'') recolouredSession) = ''#ff0000''
   \<and> activeContent (selectPart (Some ''wheel'') recolouredSession) ''wheel''
       = Some [\<lparr>mat_class = MeshBasicMaterial, mat_color = Some 0xFF0000, mat_disposed = False\<rparr>,
               \<lparr>mat_class = OtherMaterial, mat_color = None, mat_disposed = False\<rparr>]
   \<and> activeColors (selectPart (Some ''wheel'') recolouredSession) ''wheel''
       = Some [Some 0xFF0000, None]"
proof -
  let ?m = "\<lparr>mesh_material = Multi 2, castShadow = True, receiveShadow = True,
             geometry_disposed = False\<rparr>"
  have h: "meshes recolouredSession ''wheel'' = Some ?m"
    by (simp add: recolouredSession_def loadedSession_def)
  have mm: "mesh_material ?m = Multi 2" by simp
  have k: "components recolouredSession (Multi 0)
       = [\<lparr>mat_class = MeshBasicMaterial, mat_color = Some 0x0000FF, mat_disposed = False\<rparr>,
          \<lparr>mat_class = OtherMaterial, mat_color = None, mat_disposed = False\<rparr>]"
    by (simp add: components_def recolouredSession_def loadedSession_def)
  have l: "liveColor recolouredSession (Multi 2) = ''#ff0000''"
    "liveRGB recolouredSession (Multi 2) = 0xFF0000"
    "liveColor recolouredSession (Single 2) = ''#FF0000''"
    by (simp_all add: liveColor_def liveRGB_def components_def recolouredSession_def
        loadedSession_def getHexString_def hexDigits_6 hexDigit_def)
  have w: "selectedPart recolouredSession \<noteq> Some ''wheel''" "wellFormed recolouredSession"
    "modelGroupRef recolouredSession \<noteq> None"
    "map_of (gltfOriginalMaterialsRef recolouredSession) ''wheel'' = Some (Multi 0)"
    by (simp_all add: wellFormed_def recolouredSession_def loadedSession_def)
  have c: "map (cloneAndColorMaterial 0xFF0000) (components recolouredSession (Multi 0))
       = [\<lparr>mat_class = MeshBasicMaterial, mat_color = Some 0xFF0000, mat_disposed = False\<rparr>,
          \<lparr>mat_class = OtherMaterial, mat_color = None, mat_disposed = False\<rparr>]"
    unfolding k by (simp add: cloneAndColorMaterial_def)
  have d: "map (\<lambda>x. if mat_color x \<noteq> None \<or> mat_class x \<noteq> OtherMaterial
                      then Some (0xFF0000 :: colour) else None)
             (components recolouredSession (Multi 0)) = [Some 0xFF0000, None]"
    unfolding k by simp
  note t = select_takes_live_color [OF h, where orig = "Multi 0"]
  from t have 1: "selectedPart (selectPart (Some ''wheel'') recolouredSession) = Some ''wheel''"
    by blast
  from t have "selectedPartColor (selectPart (Some ''wheel'') recolouredSession)
      = liveColor recolouredSession (mesh_material ?m)"
    by blast
  then have 2: "selectedPartColor (selectPart (Some ''wheel'') recolouredSession) = ''#ff0000''"
    by (simp only: mm l)
  from t w have "activeContent (selectPart (Some ''wheel'') recolouredSession) ''wheel''
      = Some (map (cloneAndColorMaterial (liveRGB recolouredSession (mesh_material ?m)))
                (components recolouredSession (Multi 0)))"
    by blast
  then have 3: "activeContent (selectPart (Some ''wheel'') recolouredSession) ''wheel''
       = Some [\<lparr>mat_class = MeshBasicMaterial, mat_color = Some 0xFF0000, mat_disposed = False\<rparr>,
               \<lparr>mat_class = OtherMaterial, mat_color = None, mat_disposed = False\<rparr>]"
    by (simp only: mm l c)
  from t w have "activeColors (selectPart (Some ''wheel'') recolouredSession) ''wheel''
      = Some (map (\<lambda>x. if mat_color x \<noteq> None \<or> mat_class x \<noteq> OtherMaterial
                         then Some (liveRGB recolouredSession (mesh_material ?m)) else None)
                (components recolouredSession (Multi 0)))"
    by blast
  then have 4: "activeColors (selectPart (Some ''wheel'') recolouredSession) ''wheel''
       = Some [Some 0xFF0000, None]"
    by (simp only: mm l d)
  from h k l 1 2 3 4 show ?thesis by blast
qed

end
